theory Spec2Isabelle
  imports Main
begin

section \<open>Data model (types.ts)\<close>

text \<open>
  Optional properties of the TypeScript interfaces are \<open>option\<close> fields: \<open>None\<close> is
  a property that is not set. The string unions of \<open>AIMetadata\<close> (stability,
  editPermissions, breakingChangesRisk) are plain strings at run time, since the parser
  stores whatever text it captured.
\<close>

record ApprovalStatus =
  devApproved :: "bool option"
  devApprovedBy :: "string option"
  devApprovedDate :: "string option"
  codeReviewApproved :: "bool option"
  codeReviewApprovedBy :: "string option"
  codeReviewDate :: "string option"
  qaApproved :: "bool option"
  qaApprovedBy :: "string option"
  qaApprovedDate :: "string option"

text \<open>Parsed JSON, as \<open>JSON.parse\<close> returns it.\<close>

datatype json =
    JNull
  | JBool bool
  | JNum int
  | JStr string
  | JArr "json list"
  | JObj "(string \<times> json) list"

record AIMetadata =
  class' :: "string option"
  description :: "string option"
  lastUpdate :: "string option"
  lastEditor :: "string option"
  changelog :: "string option"
  stability :: "string option"
  editPermissions :: "string option"
  methodPermissions :: "json option"
  dependencies :: "string list option"
  tests :: "string list option"
  breakingChangesRisk :: "string option"
  reviewRequired :: "bool option"
  aiContext :: "string option"
  approvals :: "ApprovalStatus option"

text \<open>The object literal \<open>{}\<close> of either interface.\<close>

definition emptyApprovals :: ApprovalStatus where
  "emptyApprovals =
     \<lparr>devApproved = None, devApprovedBy = None, devApprovedDate = None,
      codeReviewApproved = None, codeReviewApprovedBy = None, codeReviewDate = None,
      qaApproved = None, qaApprovedBy = None, qaApprovedDate = None\<rparr>"

definition emptyMetadata :: AIMetadata where
  "emptyMetadata =
     \<lparr>class' = None, description = None, lastUpdate = None, lastEditor = None,
      changelog = None, stability = None, editPermissions = None,
      methodPermissions = None, dependencies = None, tests = None,
      breakingChangesRisk = None, reviewRequired = None, aiContext = None,
      approvals = None\<rparr>"

section \<open>Values, and what a plain object inherits\<close>

text \<open>The values an expression or a property read can produce.\<close>

datatype jsval =
    VUndefined
  | VNull
  | VBool bool
  | VStr string
  | VNum int
  | VObj string

text \<open>What \<open>!v\<close> negates.\<close>

fun truthy :: "jsval \<Rightarrow> bool" where
  "truthy VUndefined = False"
| "truthy VNull = False"
| "truthy (VBool b) = b"
| "truthy (VStr s) = (s \<noteq> [])"
| "truthy (VNum n) = (n \<noteq> 0)"
| "truthy (VObj t) = True"

definition strVal :: "string option \<Rightarrow> jsval" where
  "strVal v = (case v of None \<Rightarrow> VUndefined | Some s \<Rightarrow> VStr s)"

definition boolVal :: "bool option \<Rightarrow> jsval" where
  "boolVal v = (case v of None \<Rightarrow> VUndefined | Some b \<Rightarrow> VBool b)"

definition objVal :: "string \<Rightarrow> 'a option \<Rightarrow> jsval" where
  "objVal tag v = (case v of None \<Rightarrow> VUndefined | Some x \<Rightarrow> VObj tag)"

text \<open>
  \<open>approvals.p\<close> and \<open>metadata.p\<close>, as far as the object's own properties go: a
  property it does not have reads as \<open>undefined\<close>. Arrays and nested objects are opaque:
  \<open>VObj\<close> with the property's name.
\<close>

definition approvalsProp :: "ApprovalStatus \<Rightarrow> string \<Rightarrow> jsval" where
  "approvalsProp a p =
     (if p = ''devApproved'' then boolVal (devApproved a)
      else if p = ''devApprovedBy'' then strVal (devApprovedBy a)
      else if p = ''devApprovedDate'' then strVal (devApprovedDate a)
      else if p = ''codeReviewApproved'' then boolVal (codeReviewApproved a)
      else if p = ''codeReviewApprovedBy'' then strVal (codeReviewApprovedBy a)
      else if p = ''codeReviewDate'' then strVal (codeReviewDate a)
      else if p = ''qaApproved'' then boolVal (qaApproved a)
      else if p = ''qaApprovedBy'' then strVal (qaApprovedBy a)
      else if p = ''qaApprovedDate'' then strVal (qaApprovedDate a)
      else VUndefined)"

text \<open>
  The ledger \<open>approvalStates\<close> and the \<open>fieldMap\<close> of the parser are plain objects used
  as dictionaries: \<open>obj[key]\<close> finds the object's own property, and otherwise what
  \<open>Object.prototype\<close> has under that name. That is the prototype itself for
  \<open>__proto__\<close>, a function for each of the eleven built-in names, and any property an
  earlier call has put on \<open>Object.prototype\<close>. None of these objects is on the disk:
  they live as long as the server's process, and \<open>runtime\<close> is what the process has
  written on them (only approval properties are ever written).
\<close>

datatype found =
    Record ApprovalStatus
  | PrototypeObject
  | BuiltinFunction string
  | Primitive jsval

definition builtinNames :: "string list" where
  "builtinNames =
     [''constructor'', ''__defineGetter__'', ''__defineSetter__'', ''hasOwnProperty'',
      ''__lookupGetter__'', ''__lookupSetter__'', ''isPrototypeOf'',
      ''propertyIsEnumerable'', ''toString'', ''valueOf'', ''toLocaleString'']"

record runtime =
  prototypeProps :: ApprovalStatus
  functionProps :: "string \<Rightarrow> ApprovalStatus"

definition pristine :: runtime where
  "pristine = \<lparr>prototypeProps = emptyApprovals, functionProps = (\<lambda>n. emptyApprovals)\<rparr>"

definition inherited :: "runtime \<Rightarrow> string \<Rightarrow> found option" where
  "inherited rt key =
     (if key = ''__proto__'' then Some PrototypeObject
      else if key \<in> set builtinNames then Some (BuiltinFunction key)
      else (case approvalsProp (prototypeProps rt) key of
              VUndefined \<Rightarrow> None
            | v \<Rightarrow> Some (Primitive v)))"

definition truthyFound :: "found option \<Rightarrow> bool" where
  "truthyFound v =
     (case v of
        None \<Rightarrow> False
      | Some (Primitive pv) \<Rightarrow> truthy pv
      | Some other \<Rightarrow> True)"

text \<open>
  A property read on a value goes up its prototype chain, which ends in
  \<open>Object.prototype\<close> for records, functions and primitives alike. \<open>readThrough\<close> is
  what the reads of the approval properties of a value give, as a record; \<open>None\<close>
  stands for \<open>null\<close>.
\<close>

definition orElse :: "'a option \<Rightarrow> 'a option \<Rightarrow> 'a option" where
  "orElse own up = (case own of None \<Rightarrow> up | Some x \<Rightarrow> Some x)"

definition overlay :: "ApprovalStatus \<Rightarrow> ApprovalStatus \<Rightarrow> ApprovalStatus" where
  "overlay own up =
     \<lparr>devApproved = orElse (devApproved own) (devApproved up),
      devApprovedBy = orElse (devApprovedBy own) (devApprovedBy up),
      devApprovedDate = orElse (devApprovedDate own) (devApprovedDate up),
      codeReviewApproved = orElse (codeReviewApproved own) (codeReviewApproved up),
      codeReviewApprovedBy = orElse (codeReviewApprovedBy own) (codeReviewApprovedBy up),
      codeReviewDate = orElse (codeReviewDate own) (codeReviewDate up),
      qaApproved = orElse (qaApproved own) (qaApproved up),
      qaApprovedBy = orElse (qaApprovedBy own) (qaApprovedBy up),
      qaApprovedDate = orElse (qaApprovedDate own) (qaApprovedDate up)\<rparr>"

definition readThrough :: "runtime \<Rightarrow> found option \<Rightarrow> ApprovalStatus option" where
  "readThrough rt v =
     (case v of
        None \<Rightarrow> None
      | Some (Record a) \<Rightarrow> Some (overlay a (prototypeProps rt))
      | Some PrototypeObject \<Rightarrow> Some (prototypeProps rt)
      | Some (BuiltinFunction n) \<Rightarrow> Some (overlay (functionProps rt n) (prototypeProps rt))
      | Some (Primitive pv) \<Rightarrow> Some (prototypeProps rt))"

datatype jserror = TypeError

section \<open>Strings and the regular expressions of metadata-parser.ts\<close>

text \<open>
  A \<open>char\<close> stands for one code unit below 256. \<open>isSpace\<close> is the class \<open>\s\<close> on
  that range (tab, line feed, vertical tab, form feed, carriage return, space, no-break
  space), which is also what \<open>String.prototype.trim\<close> strips; \<open>isLineEnd\<close> is the
  complement of \<open>[^\n\r]\<close>.
\<close>

definition isSpace :: "char \<Rightarrow> bool" where
  "isSpace c =
     (c = CHR 0x09 \<or> c = CHR 0x0A \<or> c = CHR 0x0B \<or> c = CHR 0x0C \<or> c = CHR 0x0D
      \<or> c = CHR 0x20 \<or> c = CHR 0xA0)"

definition isLineEnd :: "char \<Rightarrow> bool" where
  "isLineEnd c = (c = CHR 0x0A \<or> c = CHR 0x0D)"

definition trim :: "string \<Rightarrow> string" where
  "trim s = rev (dropWhile isSpace (rev (dropWhile isSpace s)))"

text \<open>\<open>.replace(/['"]/g, '')\<close>: every quote character is removed, wherever it stands.\<close>

definition stripQuotes :: "string \<Rightarrow> string" where
  "stripQuotes s = filter (\<lambda>c. c \<noteq> CHR 0x27 \<and> c \<noteq> CHR 0x22) s"

text \<open>
  The flag \<open>i\<close> without \<open>u\<close> compares canonicalised code units; a pattern of ASCII
  characters then matches ASCII letters of either case and nothing above 127.
\<close>

definition canon :: "char \<Rightarrow> char" where
  "canon c =
     (case map_of (zip ''abcdefghijklmnopqrstuvwxyz'' ''ABCDEFGHIJKLMNOPQRSTUVWXYZ'') c of
        None \<Rightarrow> c
      | Some u \<Rightarrow> u)"

fun startsWith :: "string \<Rightarrow> string \<Rightarrow> bool" where
  "startsWith [] s = True"
| "startsWith (p # ps) [] = False"
| "startsWith (p # ps) (c # cs) = (p = c \<and> startsWith ps cs)"

fun startsWithCI :: "string \<Rightarrow> string \<Rightarrow> bool" where
  "startsWithCI [] s = True"
| "startsWithCI (p # ps) [] = False"
| "startsWithCI (p # ps) (c # cs) = (canon p = canon c \<and> startsWithCI ps cs)"

text \<open>
  \<open>search m s\<close> is an unanchored match: the matcher \<open>m\<close> is tried at every position of
  \<open>s\<close> from the left (the end of the string included), and the first position where it
  succeeds wins. The result is that position and what the matcher returned.
\<close>

fun search :: "(string \<Rightarrow> 'a option) \<Rightarrow> string \<Rightarrow> (nat \<times> 'a) option" where
  "search m [] = (case m [] of None \<Rightarrow> None | Some r \<Rightarrow> Some (0, r))"
| "search m (c # cs) =
     (case m (c # cs) of
        Some r \<Rightarrow> Some (0, r)
      | None \<Rightarrow> (case search m cs of None \<Rightarrow> None | Some (i, r) \<Rightarrow> Some (Suc i, r)))"

definition literalAt :: "string \<Rightarrow> string \<Rightarrow> unit option" where
  "literalAt p s = (if startsWith p s then Some () else None)"

text \<open>
  \<open>/\/\*\*[\s\S]*?@ai-metadata[\s\S]*?\*\//\<close> anchored at the head of \<open>s\<close>: the
  opening \<open>/**\<close>, the nearest \<open>@ai-metadata\<close> that still has a \<open>*/\<close> behind it (the
  lazy quantifier backtracks to a later marker otherwise), and the nearest such \<open>*/\<close>.
  The result is the length of the match.
\<close>

definition markerAt :: "string \<Rightarrow> nat option" where
  "markerAt t =
     (if startsWith ''@ai-metadata'' t
      then (case search (literalAt ''*/'') (drop 12 t) of
              None \<Rightarrow> None
            | Some (k, _) \<Rightarrow> Some k)
      else None)"

definition blockAt :: "string \<Rightarrow> nat option" where
  "blockAt s =
     (if startsWith ''/**'' s
      then (case search markerAt (drop 3 s) of
              None \<Rightarrow> None
            | Some (j, k) \<Rightarrow> Some (3 + j + 12 + k + 2))
      else None)"

text \<open>\<open>content.match(metadataRegex)\<close>: the text before the match and \<open>match[0]\<close>.\<close>

definition matchMetadataBlock :: "string \<Rightarrow> (string \<times> string) option" where
  "matchMetadataBlock content =
     (case search blockAt content of
        None \<Rightarrow> None
      | Some (i, n) \<Rightarrow> Some (take i content, take n (drop i content)))"

text \<open>
  The tail \<open>\s*([^\n\r]+)\<close> of a field pattern, on the text behind the field name.
  \<open>\s*\<close> is greedy: it takes the whole run of white space, line breaks included. When
  a character is left, it is no line break and the group runs to the end of its line.
  When the run reaches the end of the text, the matcher backtracks to the last white
  space character that is no line break, and the group is that one character. The
  result is the length matched and the group.
\<close>

definition valueTail :: "string \<Rightarrow> (nat \<times> string) option" where
  "valueTail r =
     (let ws = takeWhile isSpace r; rest = dropWhile isSpace r
      in if rest \<noteq> []
         then (let v = takeWhile (\<lambda>c. \<not> isLineEnd c) rest
               in Some (length ws + length v, v))
         else (let ws' = rev (dropWhile isLineEnd (rev ws))
               in if ws' = [] then None else Some (length ws', [last ws'])))"

definition scalarAt :: "string \<Rightarrow> string \<Rightarrow> (nat \<times> string) option" where
  "scalarAt field s =
     (if startsWithCI field s
      then (case valueTail (drop (length field) s) of
              None \<Rightarrow> None
            | Some (n, v) \<Rightarrow> Some (length field + n, v))
      else None)"

text \<open>
  The tail \<open>\s*\[([^\]]+)\]\<close> (with \<open>CHR ''[''\<close>, \<open>CHR '']''\<close>) and
  \<open>\s*({[^}]+})\<close> (with the braces): white space, the opening character, a non-empty
  run without the closing character, the closing character. The result is the run.
\<close>

definition bracketTail :: "char \<Rightarrow> char \<Rightarrow> string \<Rightarrow> string option" where
  "bracketTail opn cls r =
     (case dropWhile isSpace r of
        [] \<Rightarrow> None
      | c # t \<Rightarrow>
          if c = opn
          then (let body = takeWhile (\<lambda>x. x \<noteq> cls) t
                in if body \<noteq> [] \<and> dropWhile (\<lambda>x. x \<noteq> cls) t \<noteq> []
                   then Some body else None)
          else None)"

definition bracketAt :: "char \<Rightarrow> char \<Rightarrow> string \<Rightarrow> string \<Rightarrow> string option" where
  "bracketAt opn cls field s =
     (if startsWithCI field s then bracketTail opn cls (drop (length field) s) else None)"

text \<open>\<open>s.split(',')\<close>.\<close>

fun splitComma :: "string \<Rightarrow> string list" where
  "splitComma [] = [[]]"
| "splitComma (c # cs) =
     (if c = CHR '','' then [] # splitComma cs
      else (case splitComma cs of
              [] \<Rightarrow> [[c]]
            | w # ws \<Rightarrow> (c # w) # ws))"

section \<open>MetadataParser (metadata-parser.ts)\<close>

text \<open>
  The field names passed by the source hold no character that the escaping
  \<open>field.replace(/[.*+?^${}()|[\]\\]/g, '\\$&')\<close> changes, so each is matched as it is
  written. A setter is called with \<open>match[1].trim().replace(/['"]/g, '')\<close>; the
  functions return that argument, \<open>None\<close> when the setter is not called.
\<close>

definition parseField :: "string \<Rightarrow> string \<Rightarrow> string option" where
  "parseField content field =
     (case search (scalarAt field) content of
        None \<Rightarrow> None
      | Some (i, n, v) \<Rightarrow> Some (stripQuotes (trim v)))"

definition parseArrayField :: "string \<Rightarrow> string \<Rightarrow> string list option" where
  "parseArrayField content field =
     (case search (bracketAt (CHR ''['') (CHR '']'') field) content of
        None \<Rightarrow> None
      | Some (i, body) \<Rightarrow> Some (map (\<lambda>item. stripQuotes (trim item)) (splitComma body)))"

text \<open>
  \<open>JSON.parse\<close> belongs to the run time, so it is the parameter \<open>jp\<close>: \<open>None\<close> when it
  throws. The result of \<open>parseJsonField\<close> is the setter's argument and the lines
  written to \<open>console.warn\<close>.
\<close>

definition jsonText :: "string \<Rightarrow> string" where
  "jsonText body =
     map (\<lambda>c. if c = CHR 0x27 then CHR 0x22 else c) (CHR ''{'' # body @ [CHR ''}''])"

definition parseJsonField ::
  "(string \<Rightarrow> json option) \<Rightarrow> string \<Rightarrow> string \<Rightarrow> json option \<times> string list" where
  "parseJsonField jp content field =
     (case search (bracketAt (CHR ''{'') (CHR ''}'') field) content of
        None \<Rightarrow> (None, [])
      | Some (i, body) \<Rightarrow>
          (case jp (jsonText body) of
             Some v \<Rightarrow> (Some v, [])
           | None \<Rightarrow> (None, [''Warning: Could not parse JSON for '' @ field])))"

definition isTrue :: "string option \<Rightarrow> bool option" where
  "isTrue v = map_option (\<lambda>s. s = ''true'') v"

definition parseApprovals :: "string \<Rightarrow> ApprovalStatus option" where
  "parseApprovals content =
     (let a = \<lparr>devApproved = isTrue (parseField content ''@dev-approved:''),
               devApprovedBy = parseField content ''@dev-approved-by:'',
               devApprovedDate = parseField content ''@dev-approved-date:'',
               codeReviewApproved = isTrue (parseField content ''@code-review-approved:''),
               codeReviewApprovedBy = parseField content ''@code-review-approved-by:'',
               codeReviewDate = parseField content ''@code-review-date:'',
               qaApproved = isTrue (parseField content ''@qa-approved:''),
               qaApprovedBy = parseField content ''@qa-approved-by:'',
               qaApprovedDate = parseField content ''@qa-approved-date:''\<rparr>
      in if a = emptyApprovals then None else Some a)"

text \<open>The record built from \<open>match[0]\<close>, with the lines logged on the way.\<close>

definition parseBlock ::
  "(string \<Rightarrow> json option) \<Rightarrow> string \<Rightarrow> AIMetadata \<times> string list" where
  "parseBlock jp metadataBlock =
     (let (mp, logged) = parseJsonField jp metadataBlock ''@method-permissions:''
      in (\<lparr>class' = parseField metadataBlock ''@class:'',
           description = parseField metadataBlock ''@description:'',
           lastUpdate = parseField metadataBlock ''@last-update:'',
           lastEditor = parseField metadataBlock ''@last-editor:'',
           changelog = parseField metadataBlock ''@changelog:'',
           stability = parseField metadataBlock ''@stability:'',
           editPermissions = parseField metadataBlock ''@edit-permissions:'',
           methodPermissions = mp,
           dependencies = parseArrayField metadataBlock ''@dependencies:'',
           tests = parseArrayField metadataBlock ''@tests:'',
           breakingChangesRisk = parseField metadataBlock ''@breaking-changes-risk:'',
           reviewRequired = isTrue (parseField metadataBlock ''@review-required:''),
           aiContext = parseField metadataBlock ''@ai-context:'',
           approvals = parseApprovals metadataBlock\<rparr>, logged))"

definition extractMetadataFromContent ::
  "(string \<Rightarrow> json option) \<Rightarrow> string \<Rightarrow> AIMetadata option \<times> string list" where
  "extractMetadataFromContent jp content =
     (case matchMetadataBlock content of
        None \<Rightarrow> (None, [])
      | Some (before, metadataBlock) \<Rightarrow>
          (let (md, logged) = parseBlock jp metadataBlock in (Some md, logged)))"

subsection \<open>Updating the block\<close>

text \<open>
  \<open>String.prototype.replace\<close> with a pattern that is not global replaces the first
  match, and reads the replacement as a template: \<open>$$\<close> is a dollar sign, \<open>$&\<close> the
  match, \<open>$`\<close> and \<open>$'\<close> the text before and behind it, \<open>$n\<close> and \<open>$nn\<close> a group
  when the pattern has one of that number. \<open>dollar\<close> reads what follows a dollar sign
  and returns the text it stands for and how many characters it took.
\<close>

record matchInfo =
  matched :: string
  before :: string
  behind :: string
  captures :: "string list"

definition isDigit :: "char \<Rightarrow> bool" where
  "isDigit c = (48 \<le> (of_char c :: nat) \<and> (of_char c :: nat) \<le> 57)"

definition digitVal :: "char \<Rightarrow> nat" where
  "digitVal c = of_char c - 48"

definition groupRef :: "matchInfo \<Rightarrow> string \<Rightarrow> string \<times> nat" where
  "groupRef mi digits =
     (let index = foldl (\<lambda>n c. 10 * n + digitVal c) 0 digits
      in if 1 \<le> index \<and> index \<le> length (captures mi)
         then (captures mi ! (index - 1), length digits)
         else (CHR ''$'' # digits, length digits))"

definition dollar :: "matchInfo \<Rightarrow> string \<Rightarrow> string \<times> nat" where
  "dollar mi r =
     (case r of
        [] \<Rightarrow> (''$'', 0)
      | d # r' \<Rightarrow>
          if d = CHR ''$'' then (''$'', 1)
          else if d = CHR ''&'' then (matched mi, 1)
          else if d = CHR 0x60 then (before mi, 1)
          else if d = CHR 0x27 then (behind mi, 1)
          else if isDigit d
          then (case r' of
                  [] \<Rightarrow> groupRef mi [d]
                | d2 # r'' \<Rightarrow>
                    if isDigit d2 \<and> 10 * digitVal d + digitVal d2 \<le> length (captures mi)
                    then groupRef mi [d, d2]
                    else groupRef mi [d])
          else (''$'', 0))"

function getSubstitution :: "matchInfo \<Rightarrow> string \<Rightarrow> string" where
  "getSubstitution mi [] = []"
| "getSubstitution mi (c # r) =
     (if c = CHR ''$''
      then fst (dollar mi r) @ getSubstitution mi (drop (snd (dollar mi r)) r)
      else c # getSubstitution mi r)"
  by pat_completeness auto
termination
  by (relation "measure (\<lambda>(mi, t). length t)") auto

text \<open>
  \<open>s.replace(pattern, template)\<close>, for a pattern given by its matcher: the matcher
  returns the length of the match and the groups.
\<close>

definition replaceFirst :: "(string \<Rightarrow> (nat \<times> string list) option) \<Rightarrow> string \<Rightarrow> string \<Rightarrow> string" where
  "replaceFirst m template s =
     (case search m s of
        None \<Rightarrow> s
      | Some (i, n, groups) \<Rightarrow>
          (let mi = \<lparr>matched = take n (drop i s), before = take i s,
                     behind = drop (i + n) s, captures = groups\<rparr>
           in take i s @ getSubstitution mi template @ drop (i + n) s))"

text \<open>
  The pattern of \<open>updateMetadataField\<close>, \<open>(field)\s*[^\n\r]+\<close> with the flag \<open>i\<close>: its
  one group is the field name as the text spells it. And \<open>/\s*\*\//\<close>: white space,
  then the closing \<open>*/\<close>.
\<close>

definition fieldLineAt :: "string \<Rightarrow> string \<Rightarrow> (nat \<times> string list) option" where
  "fieldLineAt field s =
     (case scalarAt field s of
        None \<Rightarrow> None
      | Some (n, v) \<Rightarrow> Some (n, [take (length field) s]))"

definition closingAt :: "string \<Rightarrow> (nat \<times> string list) option" where
  "closingAt s =
     (if startsWith ''*/'' (dropWhile isSpace s)
      then Some (length (takeWhile isSpace s) + 2, [])
      else None)"

definition metadataBlockAt :: "string \<Rightarrow> (nat \<times> string list) option" where
  "metadataBlockAt s = (case blockAt s of None \<Rightarrow> None | Some n \<Rightarrow> Some (n, []))"

text \<open>
  The \<open>updates\<close> are the entries of a \<open>Partial<AIMetadata>\<close> in the order
  \<open>Object.entries\<close> lists them: property names with a string, a boolean, or (for the
  properties that hold arrays and objects) something else. \<open>setEntry\<close> is the
  assignment \<open>updates[k] = v\<close>: an existing property keeps its place.
\<close>

datatype uval = UStr string | UBool bool | UOther

definition printed :: "uval \<Rightarrow> string" where
  "printed v =
     (case v of
        UStr s \<Rightarrow> s
      | UBool b \<Rightarrow> (if b then ''true'' else ''false'')
      | UOther \<Rightarrow> ''[object Object]'')"

definition truthyU :: "uval option \<Rightarrow> bool" where
  "truthyU v =
     (case v of
        None \<Rightarrow> False
      | Some (UStr s) \<Rightarrow> s \<noteq> []
      | Some (UBool b) \<Rightarrow> b
      | Some UOther \<Rightarrow> True)"

fun setEntry :: "string \<Rightarrow> uval \<Rightarrow> (string \<times> uval) list \<Rightarrow> (string \<times> uval) list" where
  "setEntry k v [] = [(k, v)]"
| "setEntry k v ((k', v') # r) =
     (if k' = k then (k, v) # r else (k', v') # setEntry k v r)"

text \<open>
  \<open>fieldMap\<close> lists the own properties of the object literal. For any other key
  \<open>fieldMap[key]\<close> is what the literal inherits: nothing (the block is returned as it
  is), an object or \<open>true\<close> (then \<open>field.replace\<close> is not a function and the call
  throws), or a string that was put on \<open>Object.prototype\<close> (then that string is the
  field).
\<close>

definition fieldMap :: "string \<Rightarrow> string option" where
  "fieldMap key =
     (if key = ''lastUpdate'' then Some ''@last-update:''
      else if key = ''lastEditor'' then Some ''@last-editor:''
      else if key = ''editPermissions'' then Some ''@edit-permissions:''
      else if key = ''breakingChangesRisk'' then Some ''@breaking-changes-risk:''
      else if key = ''reviewRequired'' then Some ''@review-required:''
      else None)"

definition writeField :: "string \<Rightarrow> string \<Rightarrow> uval \<Rightarrow> string" where
  "writeField metadataBlock field v =
     (let replacement = field @ '' '' @ printed v
      in if search (fieldLineAt field) metadataBlock \<noteq> None
         then replaceFirst (fieldLineAt field) replacement metadataBlock
         else replaceFirst closingAt
                (''\<newline> * '' @ replacement @ ''\<newline> */'') metadataBlock)"

definition updateMetadataField :: "runtime \<Rightarrow> string \<Rightarrow> string \<Rightarrow> uval \<Rightarrow> jserror + string" where
  "updateMetadataField rt metadataBlock key v =
     (case fieldMap key of
        Some field \<Rightarrow> Inr (writeField metadataBlock field v)
      | None \<Rightarrow>
          (case inherited rt key of
             None \<Rightarrow> Inr metadataBlock
           | Some (Primitive (VStr field)) \<Rightarrow>
               if field = [] then Inr metadataBlock
               else Inr (writeField metadataBlock field v)
           | Some (Primitive pv) \<Rightarrow> if truthy pv then Inl TypeError else Inr metadataBlock
           | Some other \<Rightarrow> Inl TypeError))"

text \<open>The loop over the entries; a throw ends it.\<close>

fun updateFields :: "runtime \<Rightarrow> string \<Rightarrow> (string \<times> uval) list \<Rightarrow> jserror + string" where
  "updateFields rt metadataBlock [] = Inr metadataBlock"
| "updateFields rt metadataBlock ((key, v) # r) =
     (case updateMetadataField rt metadataBlock key v of
        Inl e \<Rightarrow> Inl e
      | Inr b \<Rightarrow> updateFields rt b r)"

definition blockLine :: "string \<Rightarrow> uval option \<Rightarrow> string" where
  "blockLine label v =
     (case v of
        None \<Rightarrow> []
      | Some u \<Rightarrow>
          if truthyU (Some u) then '' * '' @ label @ '' '' @ printed u @ ''\<newline>'' else [])"

definition generateMetadataBlock :: "string \<Rightarrow> (string \<times> uval) list \<Rightarrow> string" where
  "generateMetadataBlock now metadata =
     ''/**\<newline> * @ai-metadata\<newline>''
     @ blockLine ''@class:'' (map_of metadata ''class'')
     @ blockLine ''@description:'' (map_of metadata ''description'')
     @ '' * @last-update: ''
     @ (case map_of metadata ''lastUpdate'' of
          None \<Rightarrow> now
        | Some u \<Rightarrow> if truthyU (Some u) then printed u else now)
     @ ''\<newline>''
     @ blockLine ''@last-editor:'' (map_of metadata ''lastEditor'')
     @ blockLine ''@stability:'' (map_of metadata ''stability'')
     @ blockLine ''@edit-permissions:'' (map_of metadata ''editPermissions'')
     @ blockLine ''@breaking-changes-risk:'' (map_of metadata ''breakingChangesRisk'')
     @ (case map_of metadata ''reviewRequired'' of
          None \<Rightarrow> []
        | Some v \<Rightarrow> '' * @review-required: '' @ printed v @ ''\<newline>'')
     @ blockLine ''@ai-context:'' (map_of metadata ''aiContext'')
     @ '' */''"

text \<open>\<open>now\<close> is the clock, as \<open>new Date().toISOString()\<close> prints it.\<close>

definition updateMetadataInContent ::
  "runtime \<Rightarrow> string \<Rightarrow> string \<Rightarrow> (string \<times> uval) list \<Rightarrow> jserror + string" where
  "updateMetadataInContent rt now content updates =
     (case matchMetadataBlock content of
        None \<Rightarrow> Inr (generateMetadataBlock now updates @ ''\<newline>'' @ content)
      | Some (pre, metadataBlock) \<Rightarrow>
          (case updateFields rt metadataBlock (setEntry ''lastUpdate'' (UStr now) updates) of
             Inl e \<Rightarrow> Inl e
           | Inr newBlock \<Rightarrow> Inr (replaceFirst metadataBlockAt newBlock content)))"

section \<open>RuleEngine (rule-engine.ts)\<close>

text \<open>
  A rule's \<open>condition\<close> is JavaScript source that \<open>evaluateCondition\<close> compiles with
  the \<open>Function\<close> constructor and calls on the context (metadata, approvals, filePath
  and the four helper functions). The model stores the expression the text stands for:
  the values the context can produce, and the operators the shipped rules use.
  \<open>Unevaluable\<close> is every text that throws, when compiled or when run.
\<close>

datatype jsexpr =
    Lit jsval
  | MetadataProp string
  | ApprovalsProp string
  | FilePath
  | HasApproval jsexpr
  | IsHighRisk
  | IsReadOnly
  | IsDeprecated
  | Not jsexpr
  | And jsexpr jsexpr
  | Or jsexpr jsexpr
  | StrictEq jsexpr jsexpr
  | Unevaluable

record AIRule =
  rule_id :: string
  rule_name :: string
  condition :: jsexpr
  action :: string
  priority :: int
  enabled :: bool

record CheckResult =
  allowed :: bool
  reasons :: "string list"
  warnings :: "string list"

definition metadataProp :: "AIMetadata \<Rightarrow> string \<Rightarrow> jsval" where
  "metadataProp md p =
     (if p = ''class'' then strVal (class' md)
      else if p = ''description'' then strVal (description md)
      else if p = ''lastUpdate'' then strVal (lastUpdate md)
      else if p = ''lastEditor'' then strVal (lastEditor md)
      else if p = ''changelog'' then strVal (changelog md)
      else if p = ''stability'' then strVal (stability md)
      else if p = ''editPermissions'' then strVal (editPermissions md)
      else if p = ''methodPermissions'' then objVal p (methodPermissions md)
      else if p = ''dependencies'' then objVal p (dependencies md)
      else if p = ''tests'' then objVal p (tests md)
      else if p = ''breakingChangesRisk'' then strVal (breakingChangesRisk md)
      else if p = ''reviewRequired'' then boolVal (reviewRequired md)
      else if p = ''aiContext'' then strVal (aiContext md)
      else if p = ''approvals'' then objVal p (approvals md)
      else VUndefined)"

text \<open>
  The helper \<open>hasApproval(type)\<close>: false without an approval record, otherwise
  \<open>approvals[`${type}Approved`] === true\<close>. Only a string argument can name a property
  of the record (the other values print as \<open>undefined\<close>, \<open>null\<close>, \<open>true\<close>, digits or
  \<open>[object Object]\<close>).
\<close>

definition hasApproval :: "ApprovalStatus option \<Rightarrow> jsval \<Rightarrow> bool" where
  "hasApproval appr v =
     (case appr of
        None \<Rightarrow> False
      | Some a \<Rightarrow>
          (case v of
             VStr t \<Rightarrow> approvalsProp a (t @ ''Approved'') = VBool True
           | _ \<Rightarrow> False))"

definition isHighRisk :: "AIMetadata \<Rightarrow> bool" where
  "isHighRisk md = (breakingChangesRisk md = Some ''high'')"

definition isReadOnly :: "AIMetadata \<Rightarrow> bool" where
  "isReadOnly md = (editPermissions md = Some ''read-only'')"

definition isDeprecated :: "AIMetadata \<Rightarrow> bool" where
  "isDeprecated md = (stability md = Some ''deprecated'')"

text \<open>
  The value of an expression in the context; \<open>None\<close> when it throws. \<open>&&\<close> and \<open>||\<close>
  return one of their operands and evaluate the right one only when needed. In the
  context, \<open>approvals\<close> is \<open>approvals || {}\<close>.
\<close>

fun evalExpr :: "AIMetadata \<Rightarrow> ApprovalStatus option \<Rightarrow> string \<Rightarrow> jsexpr \<Rightarrow> jsval option" where
  "evalExpr md appr fp (Lit v) = Some v"
| "evalExpr md appr fp (MetadataProp p) = Some (metadataProp md p)"
| "evalExpr md appr fp (ApprovalsProp p) =
     Some (approvalsProp (case appr of None \<Rightarrow> emptyApprovals | Some a \<Rightarrow> a) p)"
| "evalExpr md appr fp FilePath = Some (VStr fp)"
| "evalExpr md appr fp (HasApproval e) =
     (case evalExpr md appr fp e of
        None \<Rightarrow> None
      | Some v \<Rightarrow> Some (VBool (hasApproval appr v)))"
| "evalExpr md appr fp IsHighRisk = Some (VBool (isHighRisk md))"
| "evalExpr md appr fp IsReadOnly = Some (VBool (isReadOnly md))"
| "evalExpr md appr fp IsDeprecated = Some (VBool (isDeprecated md))"
| "evalExpr md appr fp (Not e) =
     (case evalExpr md appr fp e of
        None \<Rightarrow> None
      | Some v \<Rightarrow> Some (VBool (\<not> truthy v)))"
| "evalExpr md appr fp (And a b) =
     (case evalExpr md appr fp a of
        None \<Rightarrow> None
      | Some v \<Rightarrow> if truthy v then evalExpr md appr fp b else Some v)"
| "evalExpr md appr fp (Or a b) =
     (case evalExpr md appr fp a of
        None \<Rightarrow> None
      | Some v \<Rightarrow> if truthy v then Some v else evalExpr md appr fp b)"
| "evalExpr md appr fp (StrictEq a b) =
     (case evalExpr md appr fp a of
        None \<Rightarrow> None
      | Some v \<Rightarrow>
          (case evalExpr md appr fp b of
             None \<Rightarrow> None
           | Some w \<Rightarrow> Some (VBool (v = w))))"
| "evalExpr md appr fp Unevaluable = None"

text \<open>The \<open>catch\<close> of \<open>evaluateCondition\<close> returns \<open>true\<close>.\<close>

definition evaluateCondition ::
  "jsexpr \<Rightarrow> AIMetadata \<Rightarrow> ApprovalStatus option \<Rightarrow> string \<Rightarrow> jsval" where
  "evaluateCondition cond md appr fp =
     (case evalExpr md appr fp cond of None \<Rightarrow> VBool True | Some v \<Rightarrow> v)"

text \<open>\<open>evaluateRule\<close> returns \<open>passed\<close> and \<open>message\<close>.\<close>

definition evaluateRule ::
  "AIRule \<Rightarrow> AIMetadata \<Rightarrow> ApprovalStatus option \<Rightarrow> string \<Rightarrow> jsval \<times> string" where
  "evaluateRule rule md appr fp = (evaluateCondition (condition rule) md appr fp, action rule)"

definition getDefaultRules :: "AIRule list" where
  "getDefaultRules =
     [\<lparr>rule_id = ''no-modify-read-only'',
       rule_name = ''Prevent Read-Only Modifications'',
       condition = IsReadOnly,
       action = ''File is marked as read-only and cannot be modified'',
       priority = 10, enabled = True\<rparr>,
      \<lparr>rule_id = ''high-risk-needs-approval'',
       rule_name = ''High Risk Needs Approval'',
       condition = And IsHighRisk (Not (HasApproval (Lit (VStr ''dev'')))),
       action = ''High-risk file requires developer approval'',
       priority = 9, enabled = True\<rparr>,
      \<lparr>rule_id = ''deprecated-warning'',
       rule_name = ''Deprecated File Warning'',
       condition = IsDeprecated,
       action = ''Consider if modifying deprecated file is necessary'',
       priority = 5, enabled = True\<rparr>,
      \<lparr>rule_id = ''review-required'',
       rule_name = ''Review Required'',
       condition = And (MetadataProp ''reviewRequired'')
                       (Not (HasApproval (Lit (VStr ''codeReview'')))),
       action = ''File requires code review before modification'',
       priority = 8, enabled = True\<rparr>,
      \<lparr>rule_id = ''stable-code-protection'',
       rule_name = ''Stable Code Protection'',
       condition = And (StrictEq (MetadataProp ''stability'') (Lit (VStr ''stable'')))
                       (Not (HasApproval (Lit (VStr ''dev'')))),
       action = ''Stable code should be reviewed before modification'',
       priority = 6, enabled = True\<rparr>]"

text \<open>\<open>!approvals?.devApproved\<close> and \<open>!approvals?.codeReviewApproved\<close>.\<close>

definition devNotApproved :: "ApprovalStatus option \<Rightarrow> bool" where
  "devNotApproved appr =
     (case appr of None \<Rightarrow> True | Some a \<Rightarrow> devApproved a \<noteq> Some True)"

definition codeReviewNotApproved :: "ApprovalStatus option \<Rightarrow> bool" where
  "codeReviewNotApproved appr =
     (case appr of None \<Rightarrow> True | Some a \<Rightarrow> codeReviewApproved a \<noteq> Some True)"

text \<open>
  \<open>checkBeforeModification\<close> in two parts: the four checks written out in its body, and
  the body of its loop over the enabled rules.
\<close>

definition builtinChecks :: "AIMetadata \<Rightarrow> ApprovalStatus option \<Rightarrow> CheckResult" where
  "builtinChecks md appr =
     (let r0 = \<lparr>allowed = True, reasons = [], warnings = []\<rparr>;
          r1 = (if editPermissions md = Some ''read-only''
                then r0\<lparr>allowed := False,
                        reasons := reasons r0 @ [''File is marked as read-only'']\<rparr>
                else r0);
          r2 = (if breakingChangesRisk md = Some ''high'' \<and> devNotApproved appr
                then r1\<lparr>allowed := False,
                        reasons := reasons r1 @
                          [''High-risk file requires dev approval before modification'']\<rparr>
                else r1);
          r3 = (if reviewRequired md = Some True \<and> codeReviewNotApproved appr
                then r2\<lparr>allowed := False,
                        reasons := reasons r2 @
                          [''File requires code review approval before modification'']\<rparr>
                else r2)
      in (if stability md = Some ''deprecated''
          then r3\<lparr>warnings := warnings r3 @
                 [''This file is deprecated - consider if modification is necessary'']\<rparr>
          else r3))"

definition applyRule ::
  "AIMetadata \<Rightarrow> ApprovalStatus option \<Rightarrow> string \<Rightarrow> CheckResult \<Rightarrow> AIRule \<Rightarrow> CheckResult" where
  "applyRule md appr fp res rule =
     (let (passed, message) = evaluateRule rule md appr fp
      in if \<not> truthy passed
         then (if priority rule > 8
               then res\<lparr>allowed := False, reasons := reasons res @ [message]\<rparr>
               else res\<lparr>warnings := warnings res @ [message]\<rparr>)
         else res)"

definition checkBeforeModification ::
  "AIRule list \<Rightarrow> string \<Rightarrow> AIMetadata option \<Rightarrow> ApprovalStatus option \<Rightarrow> CheckResult" where
  "checkBeforeModification rules fp metadata appr =
     (case metadata of
        None \<Rightarrow> \<lparr>allowed = True, reasons = [],
                 warnings = [''No @ai-metadata found in file'']\<rparr>
      | Some md \<Rightarrow> foldl (applyRule md appr fp) (builtinChecks md appr) (filter enabled rules))"

definition getActionsAfterModification :: "string \<Rightarrow> AIMetadata option \<Rightarrow> string list" where
  "getActionsAfterModification fp metadata =
     (let a0 = [''invalidate_approvals'', ''update_last_modified'', ''add_to_changelog''];
          a1 = (if (case metadata of None \<Rightarrow> False | Some md \<Rightarrow> breakingChangesRisk md = Some ''high'')
                then a0 @ [''require_immediate_review''] else a0)
      in (if (case metadata of
                None \<Rightarrow> False
              | Some md \<Rightarrow> (case tests md of None \<Rightarrow> False | Some ts \<Rightarrow> ts \<noteq> []))
          then a1 @ [''run_tests''] else a1))"

section \<open>MemoryManager (memory-manager.ts)\<close>

text \<open>
  The parts of the project memory that the approval operations never look into are
  kept as JSON values.
\<close>

record ProjectContext =
  name :: string
  architecture :: string
  techStack :: "string list"
  codingStandards :: "string option"
  mainBranch :: "string option"

record Session =
  sessionId :: string
  task :: string
  started :: string
  completedSteps :: "json list"
  nextSteps :: "string list"
  importantDecisions :: "(string \<times> json) list"
  blockers :: "string list option"

record ProjectMemory =
  projectContext :: ProjectContext
  currentSession :: Session
  fileHistory :: "(string \<times> json) list"
  globalDecisions :: "json list"
  approvalStates :: "string \<rightharpoonup> ApprovalStatus"

text \<open>
  The file \<open>.ai-memory/project-memory.json\<close>: not there, there with text that
  \<open>fs.readJson\<close> rejects, or there with a document. \<open>otherFiles\<close> is every other file
  of the disk by its path, with its text; a path without an entry cannot be read.
  \<open>writable\<close> says whether \<open>fs.writeJson\<close> on the memory file succeeds.
\<close>

datatype memory_file = Missing | Unreadable string | Stored ProjectMemory

record disk =
  projectMemoryFile :: memory_file
  otherFiles :: "string \<rightharpoonup> string"
  writable :: bool

text \<open>
  A \<open>MemoryManager\<close> is built for one \<open>projectRoot\<close>; its methods use the root
  through \<open>path.relative(projectRoot, _)\<close> and \<open>path.basename(projectRoot)\<close>. A call
  also reads the clock, as \<open>new Date().toISOString()\<close> prints it, and may draw a
  session id from \<open>generateSessionId\<close>: the \<open>tick\<close> of the call.
\<close>

record manager =
  relativePath :: "string \<Rightarrow> string"
  baseName :: string

record tick =
  isoNow :: string
  newSessionId :: string

definition createDefaultProjectMemory :: "manager \<Rightarrow> tick \<Rightarrow> ProjectMemory" where
  "createDefaultProjectMemory mm t =
     \<lparr>projectContext =
        \<lparr>name = baseName mm, architecture = ''unknown'', techStack = [],
         codingStandards = Some ''./docs/coding-standards.md'',
         mainBranch = Some ''main''\<rparr>,
      currentSession =
        \<lparr>sessionId = newSessionId t, task = ''No active task'', started = isoNow t,
         completedSteps = [], nextSteps = [], importantDecisions = [],
         blockers = Some []\<rparr>,
      fileHistory = [], globalDecisions = [], approvalStates = Map.empty\<rparr>"

text \<open>
  Every method takes the disk and returns it. \<open>getProjectMemory\<close> only reads: a missing
  file gives the default memory, and so does the \<open>catch\<close> when reading throws.
\<close>

definition getProjectMemory :: "manager \<Rightarrow> tick \<Rightarrow> disk \<Rightarrow> ProjectMemory \<times> disk" where
  "getProjectMemory mm t d =
     (case projectMemoryFile d of
        Stored m \<Rightarrow> (m, d)
      | Missing \<Rightarrow> (createDefaultProjectMemory mm t, d)
      | Unreadable txt \<Rightarrow> (createDefaultProjectMemory mm t, d))"

text \<open>
  \<open>fs.writeJson\<close> replaces the file. When it throws, the \<open>catch\<close> logs the error and
  the caller goes on: the disk is as it was.
\<close>

definition saveProjectMemory :: "disk \<Rightarrow> ProjectMemory \<Rightarrow> disk" where
  "saveProjectMemory d memory =
     (if writable d then d\<lparr>projectMemoryFile := Stored memory\<rparr> else d)"

text \<open>\<open>memory.approvalStates[relativePath]\<close>.\<close>

definition lookupState :: "runtime \<Rightarrow> (string \<rightharpoonup> ApprovalStatus) \<Rightarrow> string \<Rightarrow> found option" where
  "lookupState rt states rp =
     (case states rp of
        Some a \<Rightarrow> Some (Record a)
      | None \<Rightarrow> inherited rt rp)"

text \<open>The \<open>switch\<close> of \<open>setFileApproval\<close>; any other \<open>approvalType\<close> falls through.\<close>

definition markApproved :: "string \<Rightarrow> string \<Rightarrow> string \<Rightarrow> ApprovalStatus \<Rightarrow> ApprovalStatus" where
  "markApproved approvalType approvedBy now a =
     (if approvalType = ''devApproved''
      then a\<lparr>devApproved := Some True, devApprovedBy := Some approvedBy,
             devApprovedDate := Some now\<rparr>
      else if approvalType = ''codeReviewApproved''
      then a\<lparr>codeReviewApproved := Some True, codeReviewApprovedBy := Some approvedBy,
             codeReviewDate := Some now\<rparr>
      else if approvalType = ''qaApproved''
      then a\<lparr>qaApproved := Some True, qaApprovedBy := Some approvedBy,
             qaApprovedDate := Some now\<rparr>
      else a)"

definition isSlot :: "string \<Rightarrow> bool" where
  "isSlot approvalType =
     (approvalType = ''devApproved'' \<or> approvalType = ''codeReviewApproved''
      \<or> approvalType = ''qaApproved'')"

text \<open>
  \<open>setFileApproval\<close>. The guard stores \<open>{}\<close> under the path when the lookup is falsy.
  \<open>approvals\<close> is then whatever the lookup finds, and the \<open>switch\<close> assigns to its
  properties: to the stored record, or to \<open>Object.prototype\<close> or a built-in function
  (nothing of that is in the document that is saved), or to a primitive, which throws
  in a module (strict mode) before anything is saved.
\<close>

definition setFileApproval ::
  "manager \<Rightarrow> tick \<Rightarrow> runtime \<Rightarrow> disk \<Rightarrow> string \<Rightarrow> string \<Rightarrow> string \<Rightarrow> jserror + disk \<times> runtime" where
  "setFileApproval mm t rt d filePath approvalType approvedBy =
     (let (memory, d1) = getProjectMemory mm t d;
          rp = relativePath mm filePath;
          states = (if truthyFound (lookupState rt (approvalStates memory) rp)
                    then approvalStates memory
                    else (approvalStates memory)(rp \<mapsto> emptyApprovals))
      in (case lookupState rt states rp of
            None \<Rightarrow> Inl TypeError
          | Some (Record a) \<Rightarrow>
              Inr (saveProjectMemory d1
                     (memory\<lparr>approvalStates :=
                               states(rp \<mapsto> markApproved approvalType approvedBy (isoNow t) a)\<rparr>),
                   rt)
          | Some PrototypeObject \<Rightarrow>
              Inr (saveProjectMemory d1 (memory\<lparr>approvalStates := states\<rparr>),
                   rt\<lparr>prototypeProps :=
                        markApproved approvalType approvedBy (isoNow t) (prototypeProps rt)\<rparr>)
          | Some (BuiltinFunction n) \<Rightarrow>
              Inr (saveProjectMemory d1 (memory\<lparr>approvalStates := states\<rparr>),
                   rt\<lparr>functionProps :=
                        (functionProps rt)
                          (n := markApproved approvalType approvedBy (isoNow t)
                                  (functionProps rt n))\<rparr>)
          | Some (Primitive pv) \<Rightarrow>
              if isSlot approvalType then Inl TypeError
              else Inr (saveProjectMemory d1 (memory\<lparr>approvalStates := states\<rparr>), rt)))"

text \<open>\<open>memory.approvalStates[relativePath] || null\<close>.\<close>

definition getFileApprovalStatus ::
  "manager \<Rightarrow> tick \<Rightarrow> runtime \<Rightarrow> disk \<Rightarrow> string \<Rightarrow> found option \<times> disk" where
  "getFileApprovalStatus mm t rt d filePath =
     (let (memory, d1) = getProjectMemory mm t d;
          v = lookupState rt (approvalStates memory) (relativePath mm filePath)
      in (if truthyFound v then v else None, d1))"

definition invalidated :: ApprovalStatus where
  "invalidated =
     \<lparr>devApproved = Some False, devApprovedBy = None, devApprovedDate = None,
      codeReviewApproved = Some False, codeReviewApprovedBy = None, codeReviewDate = None,
      qaApproved = Some False, qaApprovedBy = None, qaApprovedDate = None\<rparr>"

text \<open>
  \<open>invalidateFileApprovals\<close>. The assignment \<open>approvalStates[relativePath] = {...}\<close>
  stores an own property, except under \<open>__proto__\<close> when the object has no own
  property of that name: then it replaces the prototype of the object in memory and
  stores nothing. The document is saved in either case.
\<close>

definition invalidateFileApprovals ::
  "manager \<Rightarrow> tick \<Rightarrow> runtime \<Rightarrow> disk \<Rightarrow> string \<Rightarrow> string \<Rightarrow> disk" where
  "invalidateFileApprovals mm t rt d filePath reason =
     (let (memory, d1) = getProjectMemory mm t d;
          rp = relativePath mm filePath;
          states = approvalStates memory
      in if truthyFound (lookupState rt states rp)
         then saveProjectMemory d1
                (memory\<lparr>approvalStates :=
                          (if rp = ''__proto__'' \<and> states rp = None then states
                           else states(rp \<mapsto> invalidated))\<rparr>)
         else d1)"

section \<open>The tool handlers (index.ts)\<close>

text \<open>
  \<open>parseFileMetadata\<close> reads the file; when \<open>fs.readFile\<close> throws, the \<open>catch\<close> logs
  and returns \<open>null\<close>.
\<close>

definition parseFileMetadata ::
  "(string \<Rightarrow> json option) \<Rightarrow> disk \<Rightarrow> string \<Rightarrow> (AIMetadata option \<times> string list) \<times> disk" where
  "parseFileMetadata jp d filePath =
     (case otherFiles d filePath of
        None \<Rightarrow> ((None, [''Error reading file '' @ filePath @ '':'']), d)
      | Some content \<Rightarrow> (extractMetadataFromContent jp content, d))"

text \<open>
  The server's state: the disk, the objects of its process and the rule list of its
  \<open>RuleEngine\<close>. A handler that throws is answered with an error and leaves the state
  as it was.
\<close>

record world =
  theDisk :: disk
  objects :: runtime
  rules :: "AIRule list"

definition get_file_approval_status ::
  "manager \<Rightarrow> tick \<Rightarrow> world \<Rightarrow> string \<Rightarrow> found option \<times> world" where
  "get_file_approval_status mm t w filePath =
     (let (approval, d1) = getFileApprovalStatus mm t (objects w) (theDisk w) filePath
      in (approval, w\<lparr>theDisk := d1\<rparr>))"

definition set_file_approval :: "manager \<Rightarrow> tick \<Rightarrow> world \<Rightarrow> string \<Rightarrow> string \<Rightarrow> string \<Rightarrow> world" where
  "set_file_approval mm t w filePath approvalType approvedBy =
     (case setFileApproval mm t (objects w) (theDisk w) filePath approvalType approvedBy of
        Inl e \<Rightarrow> w
      | Inr (d1, rt1) \<Rightarrow> w\<lparr>theDisk := d1, objects := rt1\<rparr>)"

text \<open>
  The rule engine reads the properties of the value \<open>getFileApprovalStatus\<close> returned;
  \<open>readThrough\<close> is what those reads give.
\<close>

definition check_before_modification ::
  "(string \<Rightarrow> json option) \<Rightarrow> manager \<Rightarrow> tick \<Rightarrow> world \<Rightarrow> string \<Rightarrow> CheckResult \<times> world" where
  "check_before_modification jp mm t w filePath =
     (let ((metadata, logged), d1) = parseFileMetadata jp (theDisk w) filePath;
          (appr, d2) = getFileApprovalStatus mm t (objects w) d1 filePath;
          checkResult = checkBeforeModification (rules w) filePath metadata
                          (readThrough (objects w) appr)
      in (checkResult, w\<lparr>theDisk := d2\<rparr>))"

definition get_modification_actions ::
  "(string \<Rightarrow> json option) \<Rightarrow> world \<Rightarrow> string \<Rightarrow> string list \<times> world" where
  "get_modification_actions jp w filePath =
     (let ((fileMetadata, logged), d1) = parseFileMetadata jp (theDisk w) filePath;
          actions = getActionsAfterModification filePath fileMetadata
      in (actions, w\<lparr>theDisk := d1\<rparr>))"

section \<open>Sample inputs\<close>

text \<open>
  A project at \<open>/proj\<close>, two readings of the clock, a \<open>JSON.parse\<close> that rejects its
  argument, and some files.
\<close>

definition mmProj :: manager where
  "mmProj = \<lparr>relativePath = drop 6, baseName = ''proj''\<rparr>"

definition tickA :: tick where
  "tickA = \<lparr>isoNow = ''2024-12-20T10:00:00.000Z'', newSessionId = ''session-1-abc''\<rparr>"

definition tickB :: tick where
  "tickB = \<lparr>isoNow = ''2024-12-20T11:30:00.000Z'', newSessionId = ''session-2-def''\<rparr>"

definition rejectJson :: "string \<Rightarrow> json option" where
  "rejectJson txt = None"

text \<open>
  The shape of what \<open>toISOString\<close> prints (\<open>2024-12-20T10:00:00.000Z\<close>, with a sign in
  front for years beyond four digits): not empty, and made of digits and of the
  characters \<open>- : . T Z +\<close>.
\<close>

definition isoStamp :: "string \<Rightarrow> bool" where
  "isoStamp s = (s \<noteq> [] \<and> list_all (\<lambda>c. c \<in> set ''0123456789-:.TZ+'') s)"

definition riskyFile :: string where
  "riskyFile =
     ''/** @ai-metadata\<newline> * @edit-permissions: full\<newline> * @breaking-changes-risk: high\<newline> */''"

definition riskyMetadata :: AIMetadata where
  "riskyMetadata =
     emptyMetadata\<lparr>editPermissions := Some ''full'', breakingChangesRisk := Some ''high''\<rparr>"

definition plainFile :: string where
  "plainFile = ''export const y = 2;''"

definition badPermissionsFile :: string where
  "badPermissionsFile =
     ''/** @ai-metadata\<newline> * @class: Store\<newline> * @method-permissions: { save: allow }\<newline> */''"

text \<open>
  The block of \<open>badPermissionsFile\<close> without the line of \<open>@method-permissions\<close>, and
  a block whose \<open>@method-permissions\<close> value holds the name of another field.
\<close>

definition storeBlock :: string where
  "storeBlock = ''/** @ai-metadata\<newline> * @class: Store\<newline> */''"

definition nestedNameFile :: string where
  "nestedNameFile =
     ''/** @ai-metadata\<newline> * @method-permissions: { @class: Evil }\<newline> * @class: Store\<newline> */''"

definition experimentalFile :: string where
  "experimentalFile = ''/** @ai-metadata\<newline> * @stability: experimental\<newline> */''"

definition experimentalStamped :: string where
  "experimentalStamped =
     ''/** @ai-metadata\<newline> * @stability: experimental\<newline> * @last-update: 2024-12-20T10:00:00.000Z\<newline> */''"





definition worldA :: world where
  "worldA = \<lparr>theDisk = \<lparr>projectMemoryFile = Missing,
                         otherFiles = [''/proj/risky.ts'' \<mapsto> riskyFile,
                                       ''/proj/plain.ts'' \<mapsto> plainFile],
                         writable = True\<rparr>,
              objects = pristine,
              rules = getDefaultRules\<rparr>"

definition rule9 :: AIRule where
  "rule9 = \<lparr>rule_id = ''nine'', rule_name = ''Nine'', condition = Lit (VBool False),
            action = ''priority nine'', priority = 9, enabled = True\<rparr>"

definition rule8 :: AIRule where
  "rule8 = \<lparr>rule_id = ''eight'', rule_name = ''Eight'', condition = Lit (VBool False),
            action = ''priority eight'', priority = 8, enabled = True\<rparr>"

section \<open>The rule engine\<close>

lemma builtinChecks_allowed:
  "allowed (builtinChecks md appr) = (reasons (builtinChecks md appr) = [])"
  by (simp add: builtinChecks_def Let_def)

lemma applyRule_allowed:
  "allowed res = (reasons res = []) \<Longrightarrow>
   allowed (applyRule md appr fp res rule) = (reasons (applyRule md appr fp res rule) = [])"
  by (simp add: applyRule_def evaluateRule_def)

lemma foldl_applyRule_allowed:
  "allowed res = (reasons res = []) \<Longrightarrow>
   allowed (foldl (applyRule md appr fp) res rs)
     = (reasons (foldl (applyRule md appr fp) res rs) = [])"
proof (induction rs arbitrary: res)
  case Nil
  then show ?case by simp
next
  case (Cons r rs)
  have "allowed (applyRule md appr fp res r) = (reasons (applyRule md appr fp res r) = [])"
    using Cons.prems by (rule applyRule_allowed)
  then show ?case using Cons.IH by simp
qed

lemma foldl_applyRule_reasons:
  "reasons (foldl (applyRule md appr fp) res rs)
     = reasons res @
       map action (filter (\<lambda>r. \<not> truthy (evaluateCondition (condition r) md appr fp)
                                 \<and> priority r > 8) rs)"
  by (induction rs arbitrary: res) (simp_all add: applyRule_def evaluateRule_def)

lemma foldl_applyRule_warnings:
  "warnings (foldl (applyRule md appr fp) res rs)
     = warnings res @
       map action (filter (\<lambda>r. \<not> truthy (evaluateCondition (condition r) md appr fp)
                                 \<and> priority r \<le> 8) rs)"
  by (induction rs arbitrary: res) (simp_all add: applyRule_def evaluateRule_def)

lemma foldl_applyRule_blocked:
  "allowed (foldl (applyRule md appr fp) res rs)
     = (allowed res \<and>
        filter (\<lambda>r. \<not> truthy (evaluateCondition (condition r) md appr fp)
                     \<and> priority r > 8) rs = [])"
  by (induction rs arbitrary: res) (simp_all add: applyRule_def evaluateRule_def)

lemmas engine_defs =
  checkBeforeModification_def builtinChecks_def applyRule_def evaluateRule_def
  evaluateCondition_def getDefaultRules_def hasApproval_def approvalsProp_def
  metadataProp_def isHighRisk_def isReadOnly_def isDeprecated_def devNotApproved_def
  codeReviewNotApproved_def strVal_def boolVal_def objVal_def emptyMetadata_def
  emptyApprovals_def

text \<open>
  With the shipped rule list no file that has metadata is ever allowed: a file that is
  not read-only fails the rule \<open>no-modify-read-only\<close>, whose condition \<open>isReadOnly()\<close>
  is then false, and that rule has priority 10.
\<close>

lemma default_rules_never_allow:
  "\<not> allowed (checkBeforeModification getDefaultRules fp (Some md) appr)"
proof (cases "editPermissions md = Some ''read-only''")
  case True
  then have "\<not> allowed (builtinChecks md appr)"
    by (simp add: builtinChecks_def Let_def)
  then show ?thesis
    by (simp add: checkBeforeModification_def foldl_applyRule_blocked)
next
  case False
  have "allowed (checkBeforeModification getDefaultRules fp (Some md) appr)
          = (allowed (builtinChecks md appr) \<and>
             filter (\<lambda>r. \<not> truthy (evaluateCondition (condition r) md appr fp)
                          \<and> priority r > 8) (filter enabled getDefaultRules) = [])"
    by (simp only: checkBeforeModification_def option.case foldl_applyRule_blocked)
  moreover have "filter (\<lambda>r. \<not> truthy (evaluateCondition (condition r) md appr fp)
                          \<and> priority r > 8) (filter enabled getDefaultRules) \<noteq> []"
    using False by (simp add: getDefaultRules_def evaluateCondition_def isReadOnly_def)
  ultimately show ?thesis by simp
qed

text \<open>
  C3. Among the enabled rules whose condition comes out false, those of priority above
  8 give their action text to \<open>reasons\<close> and make \<open>allowed\<close> false, in the order of the
  rule list and after the reasons of the built-in checks; those of priority 8 or less
  give it to \<open>warnings\<close>; no other rule gives anything to either list.
\<close>

theorem C3_priority_threshold:
  "reasons (checkBeforeModification rs fp (Some md) appr)
     = reasons (builtinChecks md appr) @
       map action
         (filter (\<lambda>r. enabled r \<and> \<not> truthy (evaluateCondition (condition r) md appr fp)
                       \<and> priority r > 8) rs)
   \<and> warnings (checkBeforeModification rs fp (Some md) appr)
     = warnings (builtinChecks md appr) @
       map action
         (filter (\<lambda>r. enabled r \<and> \<not> truthy (evaluateCondition (condition r) md appr fp)
                       \<and> priority r \<le> 8) rs)
   \<and> allowed (checkBeforeModification rs fp (Some md) appr)
     = (allowed (builtinChecks md appr) \<and>
        filter (\<lambda>r. enabled r \<and> \<not> truthy (evaluateCondition (condition r) md appr fp)
                     \<and> priority r > 8) rs = [])"
  by (simp add: checkBeforeModification_def foldl_applyRule_reasons foldl_applyRule_warnings
      foldl_applyRule_blocked conj_commute conj_left_commute)

theorem C3_priority_threshold_witness:
  "reasons (checkBeforeModification [rule9, rule8] ''/proj/a.ts'' (Some emptyMetadata) None)
     = [''priority nine'']
   \<and> warnings (checkBeforeModification [rule9, rule8] ''/proj/a.ts'' (Some emptyMetadata) None)
     = [''priority eight'']
   \<and> \<not> allowed (checkBeforeModification [rule9, rule8] ''/proj/a.ts'' (Some emptyMetadata) None)"
  using C3_priority_threshold
          [where rs = "[rule9, rule8]" and fp = "''/proj/a.ts''" and md = emptyMetadata
             and appr = None]
  by (simp add: rule9_def rule8_def builtinChecks_def evaluateCondition_def emptyMetadata_def
      devNotApproved_def codeReviewNotApproved_def)

text \<open>
  C4. Whatever the metadata, the approval record and the rule list: \<open>allowed\<close> is false
  exactly when \<open>reasons\<close> is not empty, so it is a function of \<open>reasons\<close> alone and the
  warnings have no part in it.
\<close>

theorem C4_allowed_iff_no_reasons:
  "allowed (checkBeforeModification rs fp metadata appr)
     = (reasons (checkBeforeModification rs fp metadata appr) = [])"
proof (cases metadata)
  case None
  then show ?thesis by (simp add: checkBeforeModification_def)
next
  case (Some md)
  then show ?thesis
    by (simp add: checkBeforeModification_def foldl_applyRule_allowed builtinChecks_allowed)
qed

theorem C4_allowed_iff_no_reasons_witness:
  "\<not> allowed (checkBeforeModification [rule8, rule9] ''/proj/a.ts'' (Some emptyMetadata) None)
   \<and> reasons (checkBeforeModification [rule8, rule9] ''/proj/a.ts'' (Some emptyMetadata) None)
       = [''priority nine'']
   \<and> allowed (checkBeforeModification [rule8] ''/proj/a.ts'' (Some emptyMetadata) None)
   \<and> warnings (checkBeforeModification [rule8] ''/proj/a.ts'' (Some emptyMetadata) None)
       = [''priority eight'']"
  using C4_allowed_iff_no_reasons
          [where rs = "[rule8, rule9]" and fp = "''/proj/a.ts''"
             and metadata = "Some emptyMetadata" and appr = None]
    C4_allowed_iff_no_reasons
          [where rs = "[rule8]" and fp = "''/proj/a.ts''"
             and metadata = "Some emptyMetadata" and appr = None]
  by (simp add: engine_defs rule9_def rule8_def)

section \<open>The approval ledger\<close>



lemma getFileApprovalStatus_disk: "snd (getFileApprovalStatus mm t rt d p) = d"
  by (simp add: getFileApprovalStatus_def getProjectMemory_def Let_def
      split: memory_file.splits)



lemma invalidate_locked:
  "\<not> writable d \<Longrightarrow> invalidateFileApprovals mm t rt d p reason = d"
  by (cases "projectMemoryFile d")
     (simp_all add: invalidateFileApprovals_def getProjectMemory_def saveProjectMemory_def
       Let_def)

lemmas ledger_defs =
  getFileApprovalStatus_def setFileApproval_def invalidateFileApprovals_def
  getProjectMemory_def saveProjectMemory_def createDefaultProjectMemory_def
  markApproved_def invalidated_def emptyApprovals_def lookupState_def inherited_def
  builtinNames_def truthyFound_def approvalsProp_def strVal_def boolVal_def pristine_def
  isSlot_def

















section \<open>The tool handlers\<close>

text \<open>
  C10. The three query handlers return the server's state as they found it: the
  project memory file, every other file, the rule list and the objects of the process.
\<close>

theorem C10_queries_read_only:
  "snd (get_file_approval_status mm t w p) = w
   \<and> snd (check_before_modification jp mm t w p) = w
   \<and> snd (get_modification_actions jp w p) = w"
proof -
  have a: "snd (getFileApprovalStatus mm t (objects w) (theDisk w) p) = theDisk w"
    by (rule getFileApprovalStatus_disk)
  have b: "snd (parseFileMetadata jp (theDisk w) p) = theDisk w"
    by (simp add: parseFileMetadata_def split: option.splits)
  have a': "d' = theDisk w"
    if "getFileApprovalStatus mm t (objects w) (theDisk w) p = (x, d')" for x d'
    using a that by simp
  have b': "d' = theDisk w" if "parseFileMetadata jp (theDisk w) p = (x, d')" for x d'
    using b that by simp
  show ?thesis
    by (auto simp: get_file_approval_status_def check_before_modification_def
        get_modification_actions_def split: prod.splits dest!: a' b')
qed

theorem C10_queries_read_only_witness:
  "get_file_approval_status mmProj tickA worldA ''/proj/unknown.ts'' = (None, worldA)
   \<and> snd (check_before_modification rejectJson mmProj tickA worldA ''/proj/plain.ts'') = worldA
   \<and> snd (get_modification_actions rejectJson worldA ''/proj/plain.ts'') = worldA"
  using C10_queries_read_only
          [where mm = mmProj and t = tickA and w = worldA and p = "''/proj/unknown.ts''"
             and jp = rejectJson]
    C10_queries_read_only
          [where mm = mmProj and t = tickA and w = worldA and p = "''/proj/plain.ts''"
             and jp = rejectJson]
  by (simp add: get_file_approval_status_def ledger_defs worldA_def mmProj_def)

section \<open>The metadata parser\<close>

subsection \<open>Scanning\<close>

text \<open>
  Every field name starts with \<open>@\<close>, and \<open>@\<close> has no other case: a field pattern can
  only match where the text has an \<open>@\<close>. The same holds for the first character of the
  block pattern and of its parts.
\<close>

lemma canon_upper:
  "canon c \<in> set ''ABCDEFGHIJKLMNOPQRSTUVWXYZ'' \<or> canon c = c"
proof (cases "map_of (zip ''abcdefghijklmnopqrstuvwxyz'' ''ABCDEFGHIJKLMNOPQRSTUVWXYZ'') c")
  case None
  then show ?thesis by (simp add: canon_def)
next
  case (Some u)
  then have "(c, u) \<in> set (zip ''abcdefghijklmnopqrstuvwxyz'' ''ABCDEFGHIJKLMNOPQRSTUVWXYZ'')"
    by (rule map_of_SomeD)
  then have "u \<in> set ''ABCDEFGHIJKLMNOPQRSTUVWXYZ''"
    by (rule set_zip_rightD)
  then show ?thesis using Some by (simp add: canon_def)
qed

lemma canon_at: "(canon (CHR ''@'') = canon c) = (c = CHR ''@'')"
proof
  assume "canon (CHR ''@'') = canon c"
  then have "canon c = CHR ''@''" by (simp add: canon_def)
  then show "c = CHR ''@''" using canon_upper [of c] by auto
next
  assume "c = CHR ''@''"
  then show "canon (CHR ''@'') = canon c" by simp
qed

lemma scalarAt_Nil: "scalarAt (CHR ''@'' # f) [] = None"
  by (simp add: scalarAt_def)

lemma scalarAt_Cons:
  "scalarAt (CHR ''@'' # f) (c # s) =
     (if c = CHR ''@''
      then (if startsWithCI f s
            then (case valueTail (drop (length f) s) of
                    None \<Rightarrow> None
                  | Some (n, v) \<Rightarrow> Some (Suc (length f) + n, v))
            else None)
      else None)"
  by (simp add: scalarAt_def canon_at split: option.splits)

lemma bracketAt_Nil: "bracketAt opn cls (CHR ''@'' # f) [] = None"
  by (simp add: bracketAt_def)

lemma bracketAt_Cons:
  "bracketAt opn cls (CHR ''@'' # f) (c # s) =
     (if c = CHR ''@''
      then (if startsWithCI f s then bracketTail opn cls (drop (length f) s) else None)
      else None)"
  by (simp add: bracketAt_def canon_at)

lemma blockAt_Nil: "blockAt [] = None"
  by (simp add: blockAt_def)

lemma blockAt_Cons:
  "blockAt (c # s) =
     (if c = CHR ''/''
      then (if startsWith ''**'' s
            then (case search markerAt (drop 2 s) of
                    None \<Rightarrow> None
                  | Some (j, k) \<Rightarrow> Some (3 + j + 12 + k + 2))
            else None)
      else None)"
  by (simp add: blockAt_def)

lemma markerAt_Nil: "markerAt [] = None"
  by (simp add: markerAt_def)

lemma markerAt_Cons:
  "markerAt (c # s) =
     (if c = CHR ''@''
      then (if startsWith ''ai-metadata'' s
            then (case search (literalAt ''*/'') (drop 11 s) of
                    None \<Rightarrow> None
                  | Some (k, u) \<Rightarrow> Some k)
            else None)
      else None)"
  by (simp add: markerAt_def)

lemma closeAt_Nil: "literalAt ''*/'' [] = None"
  by (simp add: literalAt_def)

lemma closeAt_Cons:
  "literalAt ''*/'' (c # s) =
     (if c = CHR ''*'' then (if startsWith ''/'' s then Some () else None) else None)"
  by (simp add: literalAt_def)

lemmas scan =
  scalarAt_Nil scalarAt_Cons bracketAt_Nil bracketAt_Cons blockAt_Nil blockAt_Cons
  markerAt_Nil markerAt_Cons closeAt_Nil closeAt_Cons

lemmas value_defs =
  bracketTail_def valueTail_def isTrue_def trim_def stripQuotes_def isSpace_def isLineEnd_def
  canon_def jsonText_def

subsection \<open>Extraction\<close>

lemma extract_None:
  "(fst (extractMetadataFromContent jp content) = None) = (matchMetadataBlock content = None)"
  by (simp add: extractMetadataFromContent_def split: option.splits prod.splits)

lemma extract_Some:
  "matchMetadataBlock content = Some (pre, block) \<Longrightarrow>
   extractMetadataFromContent jp content = (Some (fst (parseBlock jp block)), snd (parseBlock jp block))"
  by (simp add: extractMetadataFromContent_def split: prod.splits)

lemma parseBlock_rejected:
  assumes "search (bracketAt (CHR ''{'') (CHR ''}'') ''@method-permissions:'') block = Some (i, body)"
    and "jp (jsonText body) = None"
  shows "methodPermissions (fst (parseBlock jp block)) = None"
    and "snd (parseBlock jp block) = [''Warning: Could not parse JSON for @method-permissions:'']"
  using assms by (simp_all add: parseBlock_def parseJsonField_def split: prod.splits)

lemma extract_fields:
  assumes "matchMetadataBlock content = Some (pre, block)"
  shows "map_option stability (fst (extractMetadataFromContent jp content))
           = Some (parseField block ''@stability:'')"
    and "map_option lastUpdate (fst (extractMetadataFromContent jp content))
           = Some (parseField block ''@last-update:'')"
    and "map_option class' (fst (extractMetadataFromContent jp content))
           = Some (parseField block ''@class:'')"
  by (simp_all add: extract_Some [OF assms] parseBlock_def split: prod.splits)

lemma bad_block: "matchMetadataBlock badPermissionsFile = Some ([], badPermissionsFile)"
  by (simp add: badPermissionsFile_def matchMetadataBlock_def scan)

lemma bad_perm:
  "search (bracketAt (CHR ''{'') (CHR ''}'') ''@method-permissions:'') badPermissionsFile
     = Some (37, '' save: allow '')"
  by (simp add: badPermissionsFile_def scan value_defs)

lemma plain_block: "matchMetadataBlock plainFile = None"
  by (simp add: plainFile_def matchMetadataBlock_def scan)

subsection \<open>A block without one of its fields\<close>

text \<open>
  A field pattern can match only at an \<open>@\<close>, the name it looks for holds no line
  feed, and the value of a scalar field ends with its line. So what a pattern finds in
  front of a line feed does not depend on what follows it, as long as the name found has
  a value on its line and, for an array field, its bracket is closed.
\<close>

lemma search_skip:
  assumes "\<And>c r. c \<in> set xs \<Longrightarrow> m (c # r) = None"
  shows "search m (xs @ ys) = map_option (\<lambda>(i, r). (length xs + i, r)) (search m ys)"
  using assms
proof (induction xs)
  case Nil
  show ?case by (cases "search m ys") auto
next
  case (Cons x xs)
  have "m (x # xs @ ys) = None" using Cons.prems by simp
  moreover have "search m (xs @ ys) = map_option (\<lambda>(i, r). (length xs + i, r)) (search m ys)"
    using Cons.IH Cons.prems by simp
  ultimately show ?case by (cases "search m ys") auto
qed

lemma canon_line_feed: "(canon c = canon (CHR 0x0A)) = (c = CHR 0x0A)"
proof
  assume "canon c = canon (CHR 0x0A)"
  then have "canon c = CHR 0x0A" by (simp add: canon_def)
  then show "c = CHR 0x0A" using canon_upper [of c] by auto
next
  assume "c = CHR 0x0A"
  then show "canon c = canon (CHR 0x0A)" by simp
qed

lemma canon_colon: "(canon (CHR '':'') = canon c) = (c = CHR '':'')"
proof
  assume "canon (CHR '':'') = canon c"
  then have "canon c = CHR '':''" by (simp add: canon_def)
  then show "c = CHR '':''" using canon_upper [of c] by auto
next
  assume "c = CHR '':''"
  then show "canon (CHR '':'') = canon c" by simp
qed

lemma search_skip_snd:
  assumes "\<And>c r. c \<in> set xs \<Longrightarrow> m (c # r) = None"
  shows "map_option snd (search m (xs @ ys)) = map_option snd (search m ys)"
  by (simp add: search_skip [of xs m ys, OF assms] option.map_comp comp_def split_def)

lemma search_same_prefix:
  assumes "\<And>p a'. a = p @ a' \<Longrightarrow> a' \<noteq> [] \<Longrightarrow> m (a' @ y) = m (a' @ z)"
    and "map_option snd (search m y) = map_option snd (search m z)"
  shows "map_option snd (search m (a @ y)) = map_option snd (search m (a @ z))"
  using assms(1)
proof (induction a)
  case Nil
  show ?case using assms(2) by simp
next
  case (Cons c cs)
  have h: "m ((c # cs) @ y) = m ((c # cs) @ z)"
    using Cons.prems [of "[]" "c # cs"] by simp
  have "\<And>p a'. cs = p @ a' \<Longrightarrow> a' \<noteq> [] \<Longrightarrow> m (a' @ y) = m (a' @ z)"
  proof -
    fix p a' assume "cs = p @ a'" and "a' \<noteq> []"
    then show "m (a' @ y) = m (a' @ z)" using Cons.prems [of "c # p" a'] by simp
  qed
  then have ih: "map_option snd (search m (cs @ y)) = map_option snd (search m (cs @ z))"
    by (rule Cons.IH)
  show ?case
  proof (cases "m ((c # cs) @ z)")
    case None
    then show ?thesis using h ih
      by (cases "search m (cs @ y)"; cases "search m (cs @ z)") auto
  next
    case (Some r)
    then show ?thesis using h by simp
  qed
qed

lemma search_removed:
  assumes p1: "\<And>c r. c \<noteq> CHR ''@'' \<Longrightarrow> m (c # r) = None"
    and p2: "m (x @ b) = None"
    and p3: "\<And>p a'. a0 = p @ a' \<Longrightarrow> a' \<noteq> [] \<Longrightarrow>
               m (a' @ CHR 0x0A # ind @ x @ b) = m (a' @ CHR 0x0A # b)"
    and ind: "CHR ''@'' \<notin> set ind"
    and x: "CHR ''@'' \<notin> set (tl x)"
  shows "map_option snd (search m (a0 @ CHR 0x0A # ind @ x @ b))
         = map_option snd (search m (a0 @ CHR 0x0A # b))"
proof -
  have i: "\<And>c r. c \<in> set (CHR 0x0A # ind) \<Longrightarrow> m (c # r) = None"
    using ind by (intro p1) auto
  have t: "\<And>c r. c \<in> set (tl x) \<Longrightarrow> m (c # r) = None"
    using x by (intro p1) auto
  have "map_option snd (search m (x @ b)) = map_option snd (search m b)"
  proof (cases x)
    case Nil
    then show ?thesis by simp
  next
    case (Cons h tx)
    have "map_option snd (search m (tx @ b)) = map_option snd (search m b)"
      using t Cons by (intro search_skip_snd) simp
    moreover have "m (h # tx @ b) = None" using p2 Cons by simp
    ultimately show ?thesis using Cons
      by (cases "search m (tx @ b)"; cases "search m b") auto
  qed
  moreover have "map_option snd (search m ((CHR 0x0A # ind) @ x @ b))
                 = map_option snd (search m (x @ b))"
    using i by (rule search_skip_snd)
  moreover have "map_option snd (search m ([CHR 0x0A] @ b)) = map_option snd (search m b)"
    by (rule search_skip_snd) (simp add: p1)
  ultimately have "map_option snd (search m (CHR 0x0A # ind @ x @ b))
                   = map_option snd (search m (CHR 0x0A # b))"
    by simp
  with p3 show ?thesis by (intro search_same_prefix) auto
qed

lemma startsWithCI_line:
  "CHR 0x0A \<notin> set f \<Longrightarrow> startsWithCI f (u @ CHR 0x0A # r) = startsWithCI f u"
proof (induction f arbitrary: u)
  case Nil
  show ?case by simp
next
  case (Cons p ps)
  show ?case
  proof (cases u)
    case Nil
    have "p \<noteq> CHR 0x0A" using Cons.prems by auto
    then have "canon p \<noteq> canon (CHR 0x0A)" by (simp only: canon_line_feed not_False_eq_True)
    then show ?thesis using Nil by simp
  next
    case (Cons d ds)
    then show ?thesis using Cons.IH Cons.prems by simp
  qed
qed

lemma startsWithCI_length: "startsWithCI f u \<Longrightarrow> length f \<le> length u"
  by (induction f u rule: startsWithCI.induct) auto

lemma value_present:
  assumes "startsWithCI f a'" and "f \<noteq> []" and "last f = CHR '':''" and "a0 = p @ a'"
    and "\<not> startsWith '':'' (dropWhile isSpace (rev a0))"
  shows "dropWhile isSpace (drop (length f) a') \<noteq> []"
  using assms
proof (induction f arbitrary: a' p)
  case Nil
  then show ?case by simp
next
  case (Cons c cs)
  from Cons.prems(1) obtain d ds where a': "a' = d # ds" and cd: "canon c = canon d"
    and rest: "startsWithCI cs ds"
    by (cases a') auto
  show ?case
  proof (cases "cs = []")
    case True
    then have "c = CHR '':''" using Cons.prems(3) by simp
    then have d: "d = CHR '':''" using cd by (simp add: canon_colon)
    show ?thesis
    proof
      assume "dropWhile isSpace (drop (length (c # cs)) a') = []"
      then have "\<And>y. y \<in> set (rev ds) \<Longrightarrow> isSpace y"
        using a' True by (simp add: dropWhile_eq_Nil_conv)
      then have "dropWhile isSpace (rev ds @ CHR '':'' # rev p)
                 = dropWhile isSpace (CHR '':'' # rev p)"
        by (rule dropWhile_append2)
      moreover have "\<not> isSpace (CHR '':'')" by (simp add: isSpace_def)
      ultimately have "dropWhile isSpace (rev ds @ CHR '':'' # rev p) = CHR '':'' # rev p"
        by simp
      then have "startsWith '':'' (dropWhile isSpace (rev a0))"
        using Cons.prems(4) a' d by simp
      then show False using Cons.prems(5) by simp
    qed
  next
    case False
    have "dropWhile isSpace (drop (length cs) ds) \<noteq> []"
    proof (rule Cons.IH [OF rest False])
      show "last cs = CHR '':''" using Cons.prems(3) False by simp
      show "a0 = (p @ [d]) @ ds" using Cons.prems(4) a' by simp
      show "\<not> startsWith '':'' (dropWhile isSpace (rev a0))" by (rule Cons.prems(5))
    qed
    then show ?thesis using a' by simp
  qed
qed

lemma valueTail_line:
  assumes "dropWhile isSpace u \<noteq> []"
  shows "valueTail (u @ CHR 0x0A # r) = valueTail u"
proof -
  from assms obtain y where y: "y \<in> set u" "\<not> isSpace y"
    by (auto simp add: dropWhile_eq_Nil_conv)
  have a: "takeWhile isSpace (u @ CHR 0x0A # r) = takeWhile isSpace u"
    using y by (rule takeWhile_append1)
  have b: "dropWhile isSpace (u @ CHR 0x0A # r) = dropWhile isSpace u @ CHR 0x0A # r"
    using y by (rule dropWhile_append1)
  have c: "takeWhile (\<lambda>c. \<not> isLineEnd c) (dropWhile isSpace u @ CHR 0x0A # r)
           = takeWhile (\<lambda>c. \<not> isLineEnd c) (dropWhile isSpace u)"
    by (rule takeWhile_tail) (simp add: isLineEnd_def)
  show ?thesis using assms by (simp add: valueTail_def a b c Let_def)
qed

lemma scalarAt_line:
  assumes "CHR 0x0A \<notin> set f" and "f \<noteq> []" and "last f = CHR '':''" and "a0 = p @ a'"
    and "\<not> startsWith '':'' (dropWhile isSpace (rev a0))"
  shows "scalarAt f (a' @ CHR 0x0A # r) = scalarAt f a'"
proof (cases "startsWithCI f a'")
  case False
  then show ?thesis using assms(1) by (simp add: scalarAt_def startsWithCI_line)
next
  case True
  then have "dropWhile isSpace (drop (length f) a') \<noteq> []"
    using assms(2-5) by (rule value_present)
  then have "valueTail (drop (length f) a' @ CHR 0x0A # r) = valueTail (drop (length f) a')"
    by (rule valueTail_line)
  then show ?thesis
    using True assms(1) startsWithCI_length [OF True]
    by (simp add: scalarAt_def startsWithCI_line)
qed

lemma open_bracket:
  "CHR '']'' \<notin> set l \<Longrightarrow>
   startsWith ''['' (dropWhile (\<lambda>c. c \<noteq> CHR ''['' \<and> c \<noteq> CHR '']'') (l @ CHR ''['' # r))"
  by (induction l) auto

lemma bracketTail_closed:
  assumes "dropWhile isSpace u \<noteq> []"
    and "\<And>t. dropWhile isSpace u = CHR ''['' # t \<Longrightarrow> CHR '']'' \<in> set t"
  shows "bracketTail (CHR ''['') (CHR '']'') (u @ r) = bracketTail (CHR ''['') (CHR '']'') u"
proof -
  from assms(1) obtain y where y: "y \<in> set u" "\<not> isSpace y"
    by (auto simp add: dropWhile_eq_Nil_conv)
  have b: "dropWhile isSpace (u @ r) = dropWhile isSpace u @ r"
    using y by (rule dropWhile_append1)
  from assms(1) obtain c t where ct: "dropWhile isSpace u = c # t"
    by (cases "dropWhile isSpace u") auto
  show ?thesis
  proof (cases "c = CHR ''[''")
    case False
    then show ?thesis using b ct by (simp add: bracketTail_def)
  next
    case True
    then have cl: "CHR '']'' \<in> set t" using assms(2) ct by simp
    have "takeWhile (\<lambda>x. x \<noteq> CHR '']'') (t @ r) = takeWhile (\<lambda>x. x \<noteq> CHR '']'') t"
      using cl by (intro takeWhile_append1 [where x = "CHR '']''"]) auto
    moreover have "dropWhile (\<lambda>x. x \<noteq> CHR '']'') (t @ r)
                   = dropWhile (\<lambda>x. x \<noteq> CHR '']'') t @ r"
      using cl by (intro dropWhile_append1 [where x = "CHR '']''"]) auto
    ultimately show ?thesis using b ct True cl
      by (auto simp add: bracketTail_def Let_def)
  qed
qed

lemma arrayAt_line:
  assumes "CHR 0x0A \<notin> set f" and "f \<noteq> []" and "last f = CHR '':''" and "a0 = p @ a'"
    and "\<not> startsWith '':'' (dropWhile isSpace (rev a0))"
    and "\<not> startsWith ''['' (dropWhile (\<lambda>c. c \<noteq> CHR ''['' \<and> c \<noteq> CHR '']'') (rev a0))"
  shows "bracketAt (CHR ''['') (CHR '']'') f (a' @ CHR 0x0A # r)
         = bracketAt (CHR ''['') (CHR '']'') f a'"
proof (cases "startsWithCI f a'")
  case False
  then show ?thesis using assms(1) by (simp add: bracketAt_def startsWithCI_line)
next
  case True
  let ?u = "drop (length f) a'"
  have u: "dropWhile isSpace ?u \<noteq> []"
    using True assms(2-5) by (rule value_present)
  have len: "length f \<le> length a'" using True by (rule startsWithCI_length)
  have "bracketTail (CHR ''['') (CHR '']'') (?u @ CHR 0x0A # r)
        = bracketTail (CHR ''['') (CHR '']'') ?u"
    using u
  proof (rule bracketTail_closed)
    fix t assume t: "dropWhile isSpace ?u = CHR ''['' # t"
    show "CHR '']'' \<in> set t"
    proof (rule ccontr)
      assume n: "CHR '']'' \<notin> set t"
      have "?u = takeWhile isSpace ?u @ CHR ''['' # t"
        using t takeWhile_dropWhile_id [of isSpace ?u] by simp
      then have "a' = take (length f) a' @ takeWhile isSpace ?u @ CHR ''['' # t"
        using append_take_drop_id [of "length f" a'] by simp
      then have "a0 = (p @ take (length f) a' @ takeWhile isSpace ?u) @ CHR ''['' # t"
        using assms(4) by simp
      then have "rev a0
                 = rev t @ CHR ''['' # rev (p @ take (length f) a' @ takeWhile isSpace ?u)"
        by (simp only: rev_append rev.simps append_assoc append_Cons append_Nil)
      moreover have "CHR '']'' \<notin> set (rev t)" using n by simp
      then have "startsWith ''['' (dropWhile (\<lambda>c. c \<noteq> CHR ''['' \<and> c \<noteq> CHR '']'')
                   (rev t @ CHR ''[''
                      # rev (p @ take (length f) a' @ takeWhile isSpace ?u)))"
        by (rule open_bracket)
      ultimately have "startsWith ''['' (dropWhile (\<lambda>c. c \<noteq> CHR ''['' \<and> c \<noteq> CHR '']'')
                               (rev a0))"
        by (simp only:)
      then show False using assms(6) by simp
    qed
  qed
  then show ?thesis using True assms(1) len by (simp add: bracketAt_def startsWithCI_line)
qed

lemma field_not_permissions:
  assumes "startsWithCI ''@method-permissions:'' x" and "canon c \<noteq> CHR ''M''"
  shows "\<not> startsWithCI (CHR ''@'' # c # fr) (x @ b)"
proof -
  from assms(1) obtain x0 x1 xs where x: "x = x0 # x1 # xs" and "canon (CHR ''m'') = canon x1"
    by (cases x; cases "tl x") auto
  then have "canon x1 = CHR ''M''" by (simp add: canon_def)
  then show ?thesis using x assms(2) by auto
qed

lemma parseField_removed:
  assumes f: "canon c \<noteq> CHR ''M''" "CHR 0x0A \<notin> set (c # fr)" "last (c # fr) = CHR '':''"
    and x: "startsWithCI ''@method-permissions:'' x" "CHR ''@'' \<notin> set (tl x)"
    and ind: "CHR ''@'' \<notin> set ind"
    and a0: "\<not> startsWith '':'' (dropWhile isSpace (rev a0))"
  shows "parseField (a0 @ CHR 0x0A # ind @ x @ b) (CHR ''@'' # c # fr)
         = parseField (a0 @ CHR 0x0A # b) (CHR ''@'' # c # fr)"
proof -
  let ?f = "CHR ''@'' # c # fr"
  have nl: "CHR 0x0A \<notin> set ?f" using f(2) by simp
  have lst: "last ?f = CHR '':''" using f(3) by simp
  have "map_option snd (search (scalarAt ?f) (a0 @ CHR 0x0A # ind @ x @ b))
        = map_option snd (search (scalarAt ?f) (a0 @ CHR 0x0A # b))"
  proof (rule search_removed [OF _ _ _ ind x(2)])
    show "scalarAt ?f (d # r) = None" if "d \<noteq> CHR ''@''" for d r
      using that by (simp add: scalarAt_Cons)
    show "scalarAt ?f (x @ b) = None"
      using field_not_permissions [OF x(1) f(1)] by (simp only: scalarAt_def if_False)
    show "scalarAt ?f (a' @ CHR 0x0A # ind @ x @ b) = scalarAt ?f (a' @ CHR 0x0A # b)"
      if "a0 = p @ a'" for p a'
      by (simp only: scalarAt_line [OF nl _ lst that a0] list.distinct not_False_eq_True)
  qed
  moreover have "parseField s ?f
                 = map_option (\<lambda>nv. stripQuotes (trim (snd nv)))
                     (map_option snd (search (scalarAt ?f) s))" for s
    by (cases "search (scalarAt ?f) s") (auto simp add: parseField_def)
  ultimately show ?thesis by (simp only:)
qed

lemma parseArrayField_removed:
  assumes f: "canon c \<noteq> CHR ''M''" "CHR 0x0A \<notin> set (c # fr)" "last (c # fr) = CHR '':''"
    and x: "startsWithCI ''@method-permissions:'' x" "CHR ''@'' \<notin> set (tl x)"
    and ind: "CHR ''@'' \<notin> set ind"
    and a0: "\<not> startsWith '':'' (dropWhile isSpace (rev a0))"
          "\<not> startsWith ''['' (dropWhile (\<lambda>c. c \<noteq> CHR ''['' \<and> c \<noteq> CHR '']'') (rev a0))"
  shows "parseArrayField (a0 @ CHR 0x0A # ind @ x @ b) (CHR ''@'' # c # fr)
         = parseArrayField (a0 @ CHR 0x0A # b) (CHR ''@'' # c # fr)"
proof -
  let ?f = "CHR ''@'' # c # fr"
  let ?m = "bracketAt (CHR ''['') (CHR '']'') ?f"
  have nl: "CHR 0x0A \<notin> set ?f" using f(2) by simp
  have lst: "last ?f = CHR '':''" using f(3) by simp
  have "map_option snd (search ?m (a0 @ CHR 0x0A # ind @ x @ b))
        = map_option snd (search ?m (a0 @ CHR 0x0A # b))"
  proof (rule search_removed [OF _ _ _ ind x(2)])
    show "?m (d # r) = None" if "d \<noteq> CHR ''@''" for d r
      using that by (simp add: bracketAt_Cons)
    show "?m (x @ b) = None"
      using field_not_permissions [OF x(1) f(1)] by (simp only: bracketAt_def if_False)
    show "?m (a' @ CHR 0x0A # ind @ x @ b) = ?m (a' @ CHR 0x0A # b)"
      if "a0 = p @ a'" for p a'
      by (simp only: arrayAt_line [OF nl _ lst that a0] list.distinct not_False_eq_True)
  qed
  moreover have "parseArrayField s ?f
                 = map_option (\<lambda>body. map (\<lambda>item. stripQuotes (trim item)) (splitComma body))
                     (map_option snd (search ?m s))" for s
    by (cases "search ?m s") (auto simp add: parseArrayField_def)
  ultimately show ?thesis by (simp only:)
qed

text \<open>
  The fields of a block from which a rejected \<open>@method-permissions\<close> field is cut out.
\<close>

lemma permissions_removed:
  assumes "matchMetadataBlock content
             = Some (pre, upper @ CHR 0x0A # indent @ entry @ lower)"
    and "CHR ''@'' \<notin> set indent"
    and "startsWithCI ''@method-permissions:'' entry"
    and "CHR ''@'' \<notin> set (tl entry)"
    and "CHR ''}'' \<in> set entry"
    and "search (bracketAt (CHR ''{'') (CHR ''}'') ''@method-permissions:'')
           (upper @ CHR 0x0A # indent @ entry @ lower)
         = Some (length upper + 1 + length indent, body)"
    and "jp (jsonText body) = None"
    and "\<not> startsWith '':'' (dropWhile isSpace (rev upper))"
    and "\<not> startsWith ''['' (dropWhile (\<lambda>c. c \<noteq> CHR ''['' \<and> c \<noteq> CHR '']'') (rev upper))"
  shows "extractMetadataFromContent jp content
         = (Some ((fst (parseBlock jp (upper @ CHR 0x0A # lower)))\<lparr>methodPermissions := None\<rparr>),
            [''Warning: Could not parse JSON for @method-permissions:''])"
proof -
  let ?B = "upper @ CHR 0x0A # indent @ entry @ lower"
  let ?B' = "upper @ CHR 0x0A # lower"
  note pf = parseField_removed [OF _ _ _ assms(3) assms(4) assms(2) assms(8), where b = lower]
  note pa = parseArrayField_removed [OF _ _ _ assms(3) assms(4) assms(2) assms(8) assms(9),
      where b = lower]
  have scalars:
    "parseField ?B ''@class:'' = parseField ?B' ''@class:''"
    "parseField ?B ''@description:'' = parseField ?B' ''@description:''"
    "parseField ?B ''@last-update:'' = parseField ?B' ''@last-update:''"
    "parseField ?B ''@last-editor:'' = parseField ?B' ''@last-editor:''"
    "parseField ?B ''@changelog:'' = parseField ?B' ''@changelog:''"
    "parseField ?B ''@stability:'' = parseField ?B' ''@stability:''"
    "parseField ?B ''@edit-permissions:'' = parseField ?B' ''@edit-permissions:''"
    "parseField ?B ''@breaking-changes-risk:'' = parseField ?B' ''@breaking-changes-risk:''"
    "parseField ?B ''@review-required:'' = parseField ?B' ''@review-required:''"
    "parseField ?B ''@ai-context:'' = parseField ?B' ''@ai-context:''"
    by (rule pf; simp add: canon_def)+
  have approvals:
    "parseField ?B ''@dev-approved:'' = parseField ?B' ''@dev-approved:''"
    "parseField ?B ''@dev-approved-by:'' = parseField ?B' ''@dev-approved-by:''"
    "parseField ?B ''@dev-approved-date:'' = parseField ?B' ''@dev-approved-date:''"
    "parseField ?B ''@code-review-approved:'' = parseField ?B' ''@code-review-approved:''"
    "parseField ?B ''@code-review-approved-by:'' = parseField ?B' ''@code-review-approved-by:''"
    "parseField ?B ''@code-review-date:'' = parseField ?B' ''@code-review-date:''"
    "parseField ?B ''@qa-approved:'' = parseField ?B' ''@qa-approved:''"
    "parseField ?B ''@qa-approved-by:'' = parseField ?B' ''@qa-approved-by:''"
    "parseField ?B ''@qa-approved-date:'' = parseField ?B' ''@qa-approved-date:''"
    by (rule pf; simp add: canon_def)+
  have arrays:
    "parseArrayField ?B ''@dependencies:'' = parseArrayField ?B' ''@dependencies:''"
    "parseArrayField ?B ''@tests:'' = parseArrayField ?B' ''@tests:''"
    by (rule pa; simp add: canon_def)+
  have json: "parseJsonField jp ?B ''@method-permissions:''
              = (None, [''Warning: Could not parse JSON for @method-permissions:''])"
    using assms(6) assms(7) by (simp add: parseJsonField_def)
  have ap: "parseApprovals ?B = parseApprovals ?B'"
    unfolding parseApprovals_def by (simp only: approvals)
  have "parseBlock jp ?B
        = ((fst (parseBlock jp ?B'))\<lparr>methodPermissions := None\<rparr>,
           [''Warning: Could not parse JSON for @method-permissions:''])"
    unfolding parseBlock_def
    by (simp only: scalars arrays ap json) (simp add: split_def Let_def)
  then show ?thesis
    using extract_Some [OF assms(1), where jp = jp] by simp
qed

text \<open>
  C8. Extraction has no path that throws: \<open>JSON.parse\<close> is the one call that can, and
  it stands in the \<open>try\<close>. Take a block in which the pattern of \<open>@method-permissions\<close>
  matches, with a captured text that \<open>JSON.parse\<close> rejects. Then extraction returns a
  record with \<open>methodPermissions\<close> absent and logs the one warning. Let moreover the
  match start at \<open>entry\<close>, where \<open>entry\<close> starts with the field name, holds the closing
  brace and no \<open>@\<close> but its first character, and stands behind a line feed and an
  indentation without \<open>@\<close>; and let the text above that line end neither in a colon (a
  field name whose value is still to come) nor inside square brackets that are still
  open. Then every other field is what the block without the indentation and \<open>entry\<close>
  gives.
\<close>

theorem C8_malformed_method_permissions:
  assumes "matchMetadataBlock content = Some (pre, block)"
    and "search (bracketAt (CHR ''{'') (CHR ''}'') ''@method-permissions:'') block
           = Some (i, body)"
    and "jp (jsonText body) = None"
  shows "(\<exists>md. extractMetadataFromContent jp content
                 = (Some md, [''Warning: Could not parse JSON for @method-permissions:''])
              \<and> methodPermissions md = None)
       \<and> (block = upper @ CHR 0x0A # indent @ entry @ lower
            \<and> i = length upper + 1 + length indent
            \<and> CHR ''@'' \<notin> set indent
            \<and> startsWithCI ''@method-permissions:'' entry
            \<and> CHR ''@'' \<notin> set (tl entry)
            \<and> CHR ''}'' \<in> set entry
            \<and> \<not> startsWith '':'' (dropWhile isSpace (rev upper))
            \<and> \<not> startsWith ''['' (dropWhile (\<lambda>c. c \<noteq> CHR ''['' \<and> c \<noteq> CHR '']'') (rev upper))
          \<longrightarrow> extractMetadataFromContent jp content
                = (Some ((fst (parseBlock jp (upper @ CHR 0x0A # lower)))
                           \<lparr>methodPermissions := None\<rparr>),
                   [''Warning: Could not parse JSON for @method-permissions:'']))"
proof (intro conjI impI)
  show "\<exists>md. extractMetadataFromContent jp content
                = (Some md, [''Warning: Could not parse JSON for @method-permissions:''])
             \<and> methodPermissions md = None"
    using extract_Some [OF assms(1), where jp = jp]
      parseBlock_rejected [where jp = jp, OF assms(2) assms(3)]
    by simp
next
  assume h: "block = upper @ CHR 0x0A # indent @ entry @ lower
            \<and> i = length upper + 1 + length indent
            \<and> CHR ''@'' \<notin> set indent
            \<and> startsWithCI ''@method-permissions:'' entry
            \<and> CHR ''@'' \<notin> set (tl entry)
            \<and> CHR ''}'' \<in> set entry
            \<and> \<not> startsWith '':'' (dropWhile isSpace (rev upper))
            \<and> \<not> startsWith ''['' (dropWhile (\<lambda>c. c \<noteq> CHR ''['' \<and> c \<noteq> CHR '']'') (rev upper))"
  have m: "matchMetadataBlock content
             = Some (pre, upper @ CHR 0x0A # indent @ entry @ lower)"
    using assms(1) h by simp
  have s: "search (bracketAt (CHR ''{'') (CHR ''}'') ''@method-permissions:'')
             (upper @ CHR 0x0A # indent @ entry @ lower)
           = Some (length upper + 1 + length indent, body)"
    using assms(2) h by simp
  show "extractMetadataFromContent jp content
          = (Some ((fst (parseBlock jp (upper @ CHR 0x0A # lower)))
                     \<lparr>methodPermissions := None\<rparr>),
             [''Warning: Could not parse JSON for @method-permissions:''])"
    using m _ _ _ _ s assms(3)
  proof (rule permissions_removed)
    show "CHR ''@'' \<notin> set indent" using h by simp
    show "startsWithCI ''@method-permissions:'' entry" using h by simp
    show "CHR ''@'' \<notin> set (tl entry)" using h by simp
    show "CHR ''}'' \<in> set entry" using h by simp
    show "\<not> startsWith '':'' (dropWhile isSpace (rev upper))" using h by simp
    show "\<not> startsWith ''['' (dropWhile (\<lambda>c. c \<noteq> CHR ''['' \<and> c \<noteq> CHR '']'') (rev upper))"
      using h by simp
  qed
qed

lemma store_block: "matchMetadataBlock storeBlock = Some ([], storeBlock)"
  by (simp add: storeBlock_def matchMetadataBlock_def scan)

lemma store_class: "parseField storeBlock ''@class:'' = Some ''Store''"
  by (simp add: storeBlock_def parseField_def scan value_defs)

lemma nested_block: "matchMetadataBlock nestedNameFile = Some ([], nestedNameFile)"
  by (simp add: nestedNameFile_def matchMetadataBlock_def scan)

lemma nested_perm:
  "search (bracketAt (CHR ''{'') (CHR ''}'') ''@method-permissions:'') nestedNameFile
     = Some (20, '' @class: Evil '')"
  by (simp add: nestedNameFile_def scan value_defs)

lemma nested_class: "parseField nestedNameFile ''@class:'' = Some ''Evil }''"
  by (simp add: nestedNameFile_def parseField_def scan value_defs)

theorem C8_malformed_method_permissions_witness:
  "matchMetadataBlock badPermissionsFile = Some ([], badPermissionsFile)
   \<and> search (bracketAt (CHR ''{'') (CHR ''}'') ''@method-permissions:'') badPermissionsFile
       = Some (37, '' save: allow '')
   \<and> rejectJson (jsonText '' save: allow '') = None
   \<and> badPermissionsFile
       = ''/** @ai-metadata\<newline> * @class: Store'' @ CHR 0x0A # '' * ''
           @ ''@method-permissions: { save: allow }\<newline>'' @ '' */''
   \<and> ''/** @ai-metadata\<newline> * @class: Store'' @ CHR 0x0A # '' */'' = storeBlock
   \<and> extractMetadataFromContent rejectJson badPermissionsFile
       = (Some ((fst (parseBlock rejectJson storeBlock))\<lparr>methodPermissions := None\<rparr>),
          [''Warning: Could not parse JSON for @method-permissions:''])
   \<and> class' (fst (parseBlock rejectJson storeBlock)) = Some ''Store''"
proof -
  let ?a0 = "''/** @ai-metadata\<newline> * @class: Store''"
  let ?x = "''@method-permissions: { save: allow }\<newline>''"
  have e: "badPermissionsFile = ?a0 @ CHR 0x0A # '' * '' @ ?x @ '' */''"
    by (simp add: badPermissionsFile_def)
  have s: "?a0 @ CHR 0x0A # '' */'' = storeBlock"
    by (simp add: storeBlock_def)
  have r: "rejectJson (jsonText '' save: allow '') = None" by (simp add: rejectJson_def)
  have l: "(37::nat) = length ?a0 + 1 + length '' * ''" by simp
  have h2: "CHR ''@'' \<notin> set '' * ''" by simp
  have h3: "startsWithCI ''@method-permissions:'' ?x" by simp
  have h4: "CHR ''@'' \<notin> set (tl ?x)" by simp
  have h5: "CHR ''}'' \<in> set ?x" by simp
  have h8: "\<not> startsWith '':'' (dropWhile isSpace (rev ?a0))" by (simp add: isSpace_def)
  have h9: "\<not> startsWith ''['' (dropWhile (\<lambda>c. c \<noteq> CHR ''['' \<and> c \<noteq> CHR '']'') (rev ?a0))"
    by simp
  have c: "class' (fst (parseBlock rejectJson storeBlock)) = Some ''Store''"
    by (simp add: parseBlock_def split_def Let_def store_class)
  from C8_malformed_method_permissions [where content = badPermissionsFile and pre = "[]"
        and block = badPermissionsFile and i = 37 and body = "'' save: allow ''"
        and jp = rejectJson and upper = ?a0 and indent = "'' * ''" and entry = ?x
        and lower = "'' */''", OF bad_block bad_perm r]
  have "extractMetadataFromContent rejectJson badPermissionsFile
       = (Some ((fst (parseBlock rejectJson (?a0 @ CHR 0x0A # '' */'')))
                  \<lparr>methodPermissions := None\<rparr>),
          [''Warning: Could not parse JSON for @method-permissions:''])"
    using e l h2 h3 h4 h5 h8 h9 by blast
  then show ?thesis
    using bad_block bad_perm r e c by (simp only: s simp_thms)
qed

text \<open>
  The claim as it was stated is for every block whose \<open>@method-permissions\<close> value is
  rejected. A field name written inside the braces is read as a field: in
  \<open>nestedNameFile\<close>, which is \<open>storeBlock\<close> with one more line, the class extracted is
  \<open>Evil }\<close>, and \<open>storeBlock\<close> itself gives \<open>Store\<close>.
\<close>

theorem C8_name_inside_value_counterexample:
  "nestedNameFile
     = take 17 storeBlock @ '' * @method-permissions: { @class: Evil }\<newline>''
         @ drop 17 storeBlock
   \<and> snd (extractMetadataFromContent rejectJson nestedNameFile)
       = [''Warning: Could not parse JSON for @method-permissions:'']
   \<and> map_option methodPermissions (fst (extractMetadataFromContent rejectJson nestedNameFile))
       = Some None
   \<and> map_option class' (fst (extractMetadataFromContent rejectJson nestedNameFile))
       = Some (Some ''Evil }'')
   \<and> map_option class' (fst (extractMetadataFromContent rejectJson storeBlock))
       = Some (Some ''Store'')"
proof -
  have a: "nestedNameFile
     = take 17 storeBlock @ '' * @method-permissions: { @class: Evil }\<newline>''
         @ drop 17 storeBlock"
    by (simp add: nestedNameFile_def storeBlock_def)
  have r: "rejectJson (jsonText '' @class: Evil '') = None" by (simp add: rejectJson_def)
  have b: "snd (extractMetadataFromContent rejectJson nestedNameFile)
       = [''Warning: Could not parse JSON for @method-permissions:'']"
    by (simp only: extract_Some [OF nested_block] snd_conv parseBlock_rejected(2) [where jp = rejectJson, OF nested_perm r])
  have c: "map_option methodPermissions (fst (extractMetadataFromContent rejectJson nestedNameFile))
       = Some None"
    by (simp only: extract_Some [OF nested_block] fst_conv option.map
          parseBlock_rejected(1) [where jp = rejectJson, OF nested_perm r])
  show ?thesis
    by (simp only: a [symmetric] b c extract_fields(3) [OF nested_block]
          extract_fields(3) [OF store_block] nested_class store_class simp_thms)
qed

subsection \<open>A block generated from an update\<close>

lemma stamp_char:
  assumes "isoStamp now" and "c \<in> set now"
  shows "c \<noteq> CHR ''@''" and "c \<noteq> CHR ''*''" and "c \<noteq> CHR ''/''" and "\<not> isSpace c"
    and "\<not> isLineEnd c" and "c \<noteq> CHR 0x27" and "c \<noteq> CHR 0x22"
proof -
  have "c \<in> set ''0123456789-:.TZ+''"
    using assms by (simp add: isoStamp_def list_all_iff)
  then show "c \<noteq> CHR ''@''" and "c \<noteq> CHR ''*''" and "c \<noteq> CHR ''/''" and "\<not> isSpace c"
    and "\<not> isLineEnd c" and "c \<noteq> CHR 0x27" and "c \<noteq> CHR 0x22"
    by (auto simp: isSpace_def isLineEnd_def)
qed

lemma skip_scalar:
  "isoStamp now \<Longrightarrow>
   search (scalarAt (CHR ''@'' # f)) (now @ ys)
     = map_option (\<lambda>(i, r). (length now + i, r)) (search (scalarAt (CHR ''@'' # f)) ys)"
  by (rule search_skip) (simp add: scalarAt_Cons stamp_char)

lemma skip_bracket:
  "isoStamp now \<Longrightarrow>
   search (bracketAt opn cls (CHR ''@'' # f)) (now @ ys)
     = map_option (\<lambda>(i, r). (length now + i, r)) (search (bracketAt opn cls (CHR ''@'' # f)) ys)"
  by (rule search_skip) (simp add: bracketAt_Cons stamp_char)

lemma skip_close:
  "isoStamp now \<Longrightarrow>
   search (literalAt ''*/'') (now @ ys)
     = map_option (\<lambda>(i, r). (length now + i, r)) (search (literalAt ''*/'') ys)"
  by (rule search_skip) (simp add: closeAt_Cons stamp_char)

lemma stamp_value:
  assumes "isoStamp now"
  shows "takeWhile isSpace (now @ r) = []" and "dropWhile isSpace (now @ r) = now @ r"
    and "takeWhile (\<lambda>c. \<not> isLineEnd c) (now @ CHR 0x0A # r) = now"
    and "stripQuotes (trim now) = now" and "now @ r \<noteq> []"
proof -
  obtain c cs where now: "now = c # cs"
    using assms by (cases now) (auto simp: isoStamp_def)
  have c: "\<not> isSpace c" using stamp_char(4) [OF assms, of c] now by simp
  show "takeWhile isSpace (now @ r) = []" and "dropWhile isSpace (now @ r) = now @ r"
    and "now @ r \<noteq> []"
    using c now by simp_all
  have "takeWhile (\<lambda>c. \<not> isLineEnd c) (now @ CHR 0x0A # r)
          = now @ takeWhile (\<lambda>c. \<not> isLineEnd c) (CHR 0x0A # r)"
    by (rule takeWhile_append2) (simp add: stamp_char(5) [OF assms])
  then show "takeWhile (\<lambda>c. \<not> isLineEnd c) (now @ CHR 0x0A # r) = now"
    by (simp add: isLineEnd_def)
  have ne: "now \<noteq> []" using now by simp
  have l: "\<not> isSpace (last now)"
    using stamp_char(4) [OF assms, of "last now"] ne by simp
  have "dropWhile isSpace now = now" using c now by simp
  moreover have "dropWhile isSpace (rev now) = rev now"
    using l ne by (simp only: dropWhile_eq_self_iff hd_rev) simp
  ultimately have "trim now = now" by (simp add: trim_def)
  moreover have "stripQuotes now = now"
    unfolding stripQuotes_def
    by (rule filter_True) (simp add: stamp_char(6,7) [OF assms])
  ultimately show "stripQuotes (trim now) = now" by simp
qed


lemma generated_block:
  "generateMetadataBlock now [(''stability'', UStr ''stable'')]
     = ''/**\<newline> * @ai-metadata\<newline> * @last-update: '' @ now
       @ ''\<newline> * @stability: stable\<newline> */''"
  by (simp add: generateMetadataBlock_def blockLine_def truthyU_def printed_def)

lemma generated_block_found:
  assumes "isoStamp now"
  shows "matchMetadataBlock
           ((''/**\<newline> * @ai-metadata\<newline> * @last-update: '' @ now
              @ ''\<newline> * @stability: stable\<newline> */'') @ rest)
         = Some ([], ''/**\<newline> * @ai-metadata\<newline> * @last-update: '' @ now
                     @ ''\<newline> * @stability: stable\<newline> */'')"
proof -
  define B where "B = ''/**\<newline> * @ai-metadata\<newline> * @last-update: '' @ now
                     @ ''\<newline> * @stability: stable\<newline> */''"
  have "search blockAt (B @ rest) = Some (0, length B)"
    by (simp add: B_def scan skip_close [OF assms])
  then have "matchMetadataBlock (B @ rest) = Some ([], B)"
    by (simp add: matchMetadataBlock_def)
  then show ?thesis by (simp only: B_def)
qed

lemma generated_block_fields:
  assumes st: "isoStamp now"
  defines "B \<equiv> ''/**\<newline> * @ai-metadata\<newline> * @last-update: '' @ now
                     @ ''\<newline> * @stability: stable\<newline> */''"
  shows "parseField B ''@class:'' = None"
    and "parseField B ''@description:'' = None"
    and "parseField B ''@last-editor:'' = None"
    and "parseField B ''@changelog:'' = None"
    and "parseField B ''@stability:'' = Some ''stable''"
    and "parseField B ''@edit-permissions:'' = None"
    and "parseField B ''@breaking-changes-risk:'' = None"
    and "parseField B ''@review-required:'' = None"
    and "parseField B ''@ai-context:'' = None"
  by (simp_all add: B_def parseField_def scan skip_scalar [OF st] value_defs)

lemma generated_block_stamp:
  assumes st: "isoStamp now"
  shows "parseField (''/**\<newline> * @ai-metadata\<newline> * @last-update: '' @ now
                     @ ''\<newline> * @stability: stable\<newline> */'') ''@last-update:'' = Some now"
  by (simp add: parseField_def scan stamp_value [OF st] valueTail_def isSpace_def Let_def canon_def)

lemma generated_block_approvals:
  assumes st: "isoStamp now"
  defines "B \<equiv> ''/**\<newline> * @ai-metadata\<newline> * @last-update: '' @ now
                     @ ''\<newline> * @stability: stable\<newline> */''"
  shows "parseField B ''@dev-approved:'' = None"
    and "parseField B ''@dev-approved-by:'' = None"
    and "parseField B ''@dev-approved-date:'' = None"
    and "parseField B ''@code-review-approved:'' = None"
    and "parseField B ''@code-review-approved-by:'' = None"
    and "parseField B ''@code-review-date:'' = None"
    and "parseField B ''@qa-approved:'' = None"
    and "parseField B ''@qa-approved-by:'' = None"
    and "parseField B ''@qa-approved-date:'' = None"
  by (simp_all add: B_def parseField_def scan skip_scalar [OF st] value_defs)

lemma generated_block_brackets:
  assumes st: "isoStamp now"
  defines "B \<equiv> ''/**\<newline> * @ai-metadata\<newline> * @last-update: '' @ now
                     @ ''\<newline> * @stability: stable\<newline> */''"
  shows "parseArrayField B ''@dependencies:'' = None"
    and "parseArrayField B ''@tests:'' = None"
    and "parseJsonField jp B ''@method-permissions:'' = (None, [])"
  by (simp_all add: B_def parseArrayField_def parseJsonField_def scan skip_bracket [OF st]
      value_defs)

text \<open>
  The path for a text without a block does write \<open>stability\<close>: extraction from the
  updated text gives \<open>stability = stable\<close>, \<open>lastUpdate\<close> the clock reading, and no
  other field.
\<close>

lemma round_trip_without_block:
  assumes "matchMetadataBlock content = None" and "isoStamp now"
  shows "\<exists>updated. updateMetadataInContent rt now content [(''stability'', UStr ''stable'')]
                      = Inr updated
           \<and> extractMetadataFromContent jp updated
               = (Some (emptyMetadata\<lparr>lastUpdate := Some now, stability := Some ''stable''\<rparr>),
                  [])"
proof -
  let ?B = "''/**\<newline> * @ai-metadata\<newline> * @last-update: '' @ now
            @ ''\<newline> * @stability: stable\<newline> */''"
  have upd: "updateMetadataInContent rt now content [(''stability'', UStr ''stable'')]
               = Inr (?B @ (''\<newline>'' @ content))"
    using assms(1) by (simp add: updateMetadataInContent_def generated_block)
  have blk: "matchMetadataBlock (?B @ (''\<newline>'' @ content)) = Some ([], ?B)"
    using assms(2) by (rule generated_block_found)
  have pb: "parseBlock jp ?B
          = (emptyMetadata\<lparr>lastUpdate := Some now, stability := Some ''stable''\<rparr>, [])"
    unfolding parseBlock_def parseApprovals_def
    by (simp only: generated_block_fields [OF assms(2)] generated_block_stamp [OF assms(2)]
          generated_block_approvals [OF assms(2)] generated_block_brackets [OF assms(2)])
       (simp add: emptyMetadata_def emptyApprovals_def isTrue_def)
  have "extractMetadataFromContent jp (?B @ (''\<newline>'' @ content))
          = (Some (fst (parseBlock jp ?B)), snd (parseBlock jp ?B))"
    using blk by (rule extract_Some)
  then have "extractMetadataFromContent jp (?B @ (''\<newline>'' @ content))
          = (Some (emptyMetadata\<lparr>lastUpdate := Some now, stability := Some ''stable''\<rparr>), [])"
    by (simp only: pb fst_conv snd_conv)
  then show ?thesis using upd by blast
qed

lemma closingAt_Nil: "closingAt [] = None"
  by (simp add: closingAt_def)

lemma fieldLineAt_Nil: "fieldLineAt (CHR ''@'' # f) [] = None"
  by (simp add: fieldLineAt_def scalarAt_Nil)

lemma fieldLineAt_Cons:
  "fieldLineAt (CHR ''@'' # f) (c # s) =
     (if c = CHR ''@''
      then (if startsWithCI f s
            then (case valueTail (drop (length f) s) of
                    None \<Rightarrow> None
                  | Some (n, v) \<Rightarrow> Some (Suc (length f) + n, [c # take (length f) s]))
            else None)
      else None)"
  by (simp add: fieldLineAt_def scalarAt_Cons split: option.splits)

lemma experimental_block:
  "matchMetadataBlock experimentalFile = Some ([], experimentalFile)"
  by (simp add: experimentalFile_def matchMetadataBlock_def scan)

lemma experimental_no_stamp:
  "search (fieldLineAt ''@last-update:'') experimentalFile = None"
  by (simp add: experimentalFile_def fieldLineAt_Nil fieldLineAt_Cons canon_def)

lemma experimental_stamped:
  "writeField experimentalFile ''@last-update:'' (UStr ''2024-12-20T10:00:00.000Z'')
     = experimentalStamped"
  by (simp add: writeField_def experimental_no_stamp printed_def replaceFirst_def)
     (simp add: experimentalFile_def experimentalStamped_def closingAt_def isSpace_def Let_def)

lemma experimental_updated:
  "updateMetadataInContent pristine ''2024-12-20T10:00:00.000Z'' experimentalFile
     [(''stability'', UStr ''stable'')] = Inr experimentalStamped"
proof -
  have k: "inherited pristine ''stability'' = None"
    by (simp add: inherited_def builtinNames_def pristine_def approvalsProp_def strVal_def
        boolVal_def emptyApprovals_def)
  have a: "updateMetadataField pristine b ''stability'' (UStr ''stable'') = Inr b" for b
    by (simp add: updateMetadataField_def fieldMap_def k)
  have a': "updateMetadataField pristine experimentalFile ''lastUpdate''
              (UStr ''2024-12-20T10:00:00.000Z'') = Inr experimentalStamped"
    by (simp add: updateMetadataField_def fieldMap_def experimental_stamped)
  have b: "search metadataBlockAt experimentalFile = Some (0, length experimentalFile, [])"
    by (simp add: experimentalFile_def metadataBlockAt_def scan)
  have c: "getSubstitution mi experimentalStamped = experimentalStamped" for mi
    by (simp add: experimentalStamped_def)
  show ?thesis
    by (simp add: updateMetadataInContent_def experimental_block a a' replaceFirst_def b c)
qed

lemma stamped_block: "matchMetadataBlock experimentalStamped = Some ([], experimentalStamped)"
  by (simp add: experimentalStamped_def matchMetadataBlock_def scan)

lemma stamped_fields:
  "parseField experimentalStamped ''@stability:'' = Some ''experimental''"
  "parseField experimentalStamped ''@last-update:'' = Some ''2024-12-20T10:00:00.000Z''"
  "parseField experimentalFile ''@last-update:'' = None"
  "parseField experimentalFile ''@stability:'' = Some ''experimental''"
  by (simp_all add: experimentalStamped_def experimentalFile_def parseField_def scan value_defs)

text \<open>
  C7. A text with a block that says \<open>@stability: experimental\<close>, updated with
  \<open>stability: stable\<close>: the update leaves the \<open>@stability\<close> line as it is and adds the
  \<open>@last-update\<close> line, so extraction from the updated text gives
  \<open>stability = experimental\<close>.
\<close>

theorem C7_stability_update_dropped:
  "updateMetadataInContent pristine ''2024-12-20T10:00:00.000Z'' experimentalFile
     [(''stability'', UStr ''stable'')] = Inr experimentalStamped
   \<and> map_option stability (fst (extractMetadataFromContent rejectJson experimentalFile))
       = Some (Some ''experimental'')
   \<and> map_option stability (fst (extractMetadataFromContent rejectJson experimentalStamped))
       = Some (Some ''experimental'')"
  by (simp only: experimental_updated extract_fields [OF stamped_block]
      extract_fields [OF experimental_block] stamped_fields simp_thms)

lemma risky_block: "matchMetadataBlock riskyFile = Some ([], riskyFile)"
  by (simp add: riskyFile_def matchMetadataBlock_def scan)

lemma risky_fields:
  "parseField riskyFile ''@class:'' = None"
  "parseField riskyFile ''@description:'' = None"
  "parseField riskyFile ''@last-update:'' = None"
  "parseField riskyFile ''@last-editor:'' = None"
  "parseField riskyFile ''@changelog:'' = None"
  "parseField riskyFile ''@stability:'' = None"
  "parseField riskyFile ''@edit-permissions:'' = Some ''full''"
  "parseField riskyFile ''@breaking-changes-risk:'' = Some ''high''"
  "parseField riskyFile ''@review-required:'' = None"
  "parseField riskyFile ''@ai-context:'' = None"
  "parseField riskyFile ''@dev-approved:'' = None"
  "parseField riskyFile ''@dev-approved-by:'' = None"
  "parseField riskyFile ''@dev-approved-date:'' = None"
  "parseField riskyFile ''@code-review-approved:'' = None"
  "parseField riskyFile ''@code-review-approved-by:'' = None"
  "parseField riskyFile ''@code-review-date:'' = None"
  "parseField riskyFile ''@qa-approved:'' = None"
  "parseField riskyFile ''@qa-approved-by:'' = None"
  "parseField riskyFile ''@qa-approved-date:'' = None"
  "parseArrayField riskyFile ''@dependencies:'' = None"
  "parseArrayField riskyFile ''@tests:'' = None"
  "parseJsonField jp riskyFile ''@method-permissions:'' = (None, [])"
  by (simp_all add: riskyFile_def parseField_def parseArrayField_def parseJsonField_def scan
      value_defs)

lemma riskyFile_metadata:
  "extractMetadataFromContent jp riskyFile = (Some riskyMetadata, [])"
proof -
  have "parseBlock jp riskyFile = (riskyMetadata, [])"
    unfolding parseBlock_def parseApprovals_def
    by (simp only: risky_fields)
       (simp add: riskyMetadata_def emptyMetadata_def emptyApprovals_def isTrue_def)
  then show ?thesis
    by (simp only: extract_Some [OF risky_block] fst_conv snd_conv)
qed

subsection \<open>Files without metadata\<close>

text \<open>
  C2. When the file cannot be read or its text has no metadata block, the check returns
  \<open>allowed = true\<close>, no reasons, and the one warning \<open>No @ai-metadata found in file\<close>.
\<close>

theorem C2_absent_metadata_fail_open:
  "(case otherFiles (theDisk w) p of
      None \<Rightarrow> True
    | Some content \<Rightarrow> matchMetadataBlock content = None) \<Longrightarrow>
   fst (check_before_modification jp mm t w p)
     = \<lparr>allowed = True, reasons = [], warnings = [''No @ai-metadata found in file'']\<rparr>"
  by (cases "otherFiles (theDisk w) p")
     (simp_all add: check_before_modification_def parseFileMetadata_def
       extractMetadataFromContent_def checkBeforeModification_def split: prod.splits)

lemma worldA_files:
  "otherFiles (theDisk worldA) ''/proj/plain.ts'' = Some plainFile"
  "otherFiles (theDisk worldA) ''/proj/missing.ts'' = None"
  by (simp_all add: worldA_def)

theorem C2_absent_metadata_fail_open_witness:
  "fst (check_before_modification rejectJson mmProj tickA worldA ''/proj/plain.ts'')
     = \<lparr>allowed = True, reasons = [], warnings = [''No @ai-metadata found in file'']\<rparr>
   \<and> fst (check_before_modification rejectJson mmProj tickA worldA ''/proj/missing.ts'')
     = \<lparr>allowed = True, reasons = [], warnings = [''No @ai-metadata found in file'']\<rparr>"
  using C2_absent_metadata_fail_open
          [where w = worldA and p = "''/proj/plain.ts''" and jp = rejectJson and mm = mmProj
             and t = tickA]
    C2_absent_metadata_fail_open
          [where w = worldA and p = "''/proj/missing.ts''" and jp = rejectJson and mm = mmProj
             and t = tickA]
  by (simp add: worldA_files plain_block)

text \<open>The claim as it was stated has the warning \<open>No metadata found\<close>.\<close>

theorem C2_warning_text_counterexample:
  "fst (check_before_modification rejectJson mmProj tickA worldA ''/proj/plain.ts'')
     \<noteq> \<lparr>allowed = True, reasons = [], warnings = [''No metadata found'']\<rparr>
   \<and> fst (check_before_modification rejectJson mmProj tickA worldA ''/proj/missing.ts'')
     \<noteq> \<lparr>allowed = True, reasons = [], warnings = [''No metadata found'']\<rparr>"
  by (simp add: check_before_modification_def parseFileMetadata_def worldA_files
      extractMetadataFromContent_def plain_block checkBeforeModification_def
      split: prod.splits)

subsection \<open>End to end\<close>

lemma worldA_risky: "otherFiles (theDisk worldA) ''/proj/risky.ts'' = Some riskyFile"
  by (simp add: worldA_def)

lemma risky_check:
  "otherFiles (theDisk w) ''/proj/risky.ts'' = Some riskyFile \<Longrightarrow>
   fst (check_before_modification jp mm t w ''/proj/risky.ts'')
     = checkBeforeModification (rules w) ''/proj/risky.ts'' (Some riskyMetadata)
         (readThrough (objects w)
            (fst (getFileApprovalStatus mm t (objects w) (theDisk w) ''/proj/risky.ts'')))"
  by (simp add: check_before_modification_def parseFileMetadata_def riskyFile_metadata
      split: prod.splits)

text \<open>
  C1. The end-to-end scenario: a file whose block says \<open>@edit-permissions: full\<close> and
  \<open>@breaking-changes-risk: high\<close>, nothing in the ledger, the shipped rules. The first
  check is refused with the reason that asks for dev approval. After \<open>set_file_approval\<close>
  for \<open>devApproved\<close> the check of the same file is refused again: the rules
  \<open>no-modify-read-only\<close> and \<open>high-risk-needs-approval\<close> now both report, because their
  conditions are false.
\<close>

theorem C1_still_blocked_after_dev_approval:
  "fst (check_before_modification rejectJson mmProj tickA worldA ''/proj/risky.ts'')
     = \<lparr>allowed = False,
        reasons = [''High-risk file requires dev approval before modification'',
                   ''File is marked as read-only and cannot be modified''],
        warnings = [''Consider if modifying deprecated file is necessary'',
                    ''File requires code review before modification'',
                    ''Stable code should be reviewed before modification'']\<rparr>
   \<and> fst (check_before_modification rejectJson mmProj tickB
            (set_file_approval mmProj tickA worldA ''/proj/risky.ts'' ''devApproved''
               ''bob@example.com'')
            ''/proj/risky.ts'')
     = \<lparr>allowed = False,
        reasons = [''File is marked as read-only and cannot be modified'',
                   ''High-risk file requires developer approval''],
        warnings = [''Consider if modifying deprecated file is necessary'',
                    ''File requires code review before modification'',
                    ''Stable code should be reviewed before modification'']\<rparr>"
proof -
  have s: "set_file_approval mmProj tickA worldA ''/proj/risky.ts'' ''devApproved''
             ''bob@example.com''
           = worldA\<lparr>theDisk :=
               (theDisk worldA)\<lparr>projectMemoryFile :=
                  Stored ((createDefaultProjectMemory mmProj tickA)
                    \<lparr>approvalStates :=
                       [''risky.ts'' \<mapsto>
                          emptyApprovals\<lparr>devApproved := Some True,
                                         devApprovedBy := Some ''bob@example.com'',
                                         devApprovedDate := Some (isoNow tickA)\<rparr>]\<rparr>)\<rparr>\<rparr>"
    by (simp add: set_file_approval_def ledger_defs worldA_def mmProj_def)
  have a: "otherFiles (theDisk (set_file_approval mmProj tickA worldA ''/proj/risky.ts''
             ''devApproved'' ''bob@example.com'')) ''/proj/risky.ts'' = Some riskyFile"
    by (simp add: s) (simp add: worldA_def)
  show ?thesis
    unfolding risky_check [OF worldA_risky] risky_check [OF a]
    by (simp add: s)
       (simp add: engine_defs riskyMetadata_def worldA_def mmProj_def ledger_defs
          readThrough_def overlay_def orElse_def)
qed

end
